theory Spec2Isabelle
  imports
    Main
    "HOL-Library.Word"
    "HOL-Library.Multiset"
    "HOL-Library.AList"
    "HOL-Library.Char_ord"
    "HOL-Library.List_Lexorder"
    "HOL-Library.Product_Lexorder"
begin

unbundle bit_operations_syntax

section \<open>Values and dictionaries\<close>

text \<open>
  The handlers of \<^verbatim>\<open>src/backend/routers/announcements.py\<close> receive a request body of type
  \<^verbatim>\<open>Dict[str, Any]\<close> and store its values as they are. A value is modelled as a JSON
  scalar: \<^verbatim>\<open>None\<close>, a boolean, an integer of any size or a string (the list of its UTF-8
  bytes). Arrays, nested objects and fractional numbers are outside the model.
\<close>

datatype json = JNull | JBool bool | JInt int | JStr string

text \<open>
  A dictionary is the list of its items, in insertion order; \<open>map_of d k\<close> looks a key up.
\<close>

type_synonym dict = "(string \<times> json) list"

text \<open>\<^verbatim>\<open>d.get(k)\<close>: the value under \<open>k\<close>, \<^verbatim>\<open>None\<close> when the key is absent.\<close>

definition dict_get :: "dict \<Rightarrow> string \<Rightarrow> json" where
  "dict_get d k = (case map_of d k of None \<Rightarrow> JNull | Some v \<Rightarrow> v)"

text \<open>\<^verbatim>\<open>d[k] = v\<close>: replaces the value of an existing key, or adds the item at the end.\<close>

definition dict_set :: "dict \<Rightarrow> string \<Rightarrow> json \<Rightarrow> dict" where
  "dict_set d k v = AList.update k v d"

text \<open>Python's truth value of an object; \<^verbatim>\<open>not v\<close> is its negation.\<close>

fun truthy :: "json \<Rightarrow> bool" where
  "truthy JNull = False"
| "truthy (JBool b) = b"
| "truthy (JInt n) = (n \<noteq> 0)"
| "truthy (JStr s) = (s \<noteq> [])"

text \<open>\<^verbatim>\<open>not teacher_username\<close> for an \<^verbatim>\<open>Optional[str]\<close>.\<close>

fun not_str :: "string option \<Rightarrow> bool" where
  "not_str None = True"
| "not_str (Some s) = (s = [])"

text \<open>\<^verbatim>\<open>not doc\<close> for the result of \<^verbatim>\<open>find_one\<close>: \<^verbatim>\<open>None\<close> or a dictionary.\<close>

fun not_dict :: "dict option \<Rightarrow> bool" where
  "not_dict None = True"
| "not_dict (Some d) = (d = [])"

subsection \<open>\<^verbatim>\<open>str()\<close>\<close>

definition digit_char :: "nat \<Rightarrow> char" where
  "digit_char n = ''0123456789abcdef'' ! n"

fun str_nat :: "nat \<Rightarrow> string" where
  "str_nat n = (if n < 10 then [digit_char n] else str_nat (n div 10) @ [digit_char (n mod 10)])"

definition str_int :: "int \<Rightarrow> string" where
  "str_int i = (if i < 0 then CHR ''-'' # str_nat (nat (- i)) else str_nat (nat i))"

fun py_str :: "json \<Rightarrow> string" where
  "py_str JNull = ''None''"
| "py_str (JBool b) = (if b then ''True'' else ''False'')"
| "py_str (JInt i) = str_int i"
| "py_str (JStr s) = s"

subsection \<open>\<^verbatim>\<open>str(uuid.uuid4())\<close>\<close>

text \<open>
  \<^verbatim>\<open>uuid4()\<close> draws 128 random bits and overwrites the variant and version bits;
  \<^verbatim>\<open>str\<close> prints the 32 hexadecimal digits in groups of 8-4-4-4-12. The random draw is
  a parameter of the model.
\<close>

definition uuid4 :: "128 word \<Rightarrow> 128 word" where
  "uuid4 r =
     (let i = r AND NOT (push_bit 48 0xc000);
          i = i OR push_bit 48 0x8000;
          i = i AND NOT (push_bit 64 0xf000);
          i = i OR push_bit 76 4
      in i)"

definition hex32 :: "128 word \<Rightarrow> string" where
  "hex32 w = map (\<lambda>k. digit_char (unat (drop_bit (4 * (31 - k)) w AND 15))) [0..<32]"

definition uuid_str :: "128 word \<Rightarrow> string" where
  "uuid_str u =
     (let h = hex32 u
      in take 8 h @ ''-'' @ take 4 (drop 8 h) @ ''-'' @ take 4 (drop 12 h) @ ''-'' @
         take 4 (drop 16 h) @ ''-'' @ drop 20 h)"

text \<open>The 122 bits of a draw that \<^verbatim>\<open>uuid4()\<close> does not overwrite.\<close>

definition random_bits :: "128 word \<Rightarrow> 128 word" where
  "random_bits r = (r AND NOT (push_bit 48 0xc000)) AND NOT (push_bit 64 0xf000)"

section \<open>The document store\<close>

text \<open>
  \<^verbatim>\<open>announcements_collection\<close> and \<^verbatim>\<open>teachers_collection\<close> are MongoDB collections. A
  collection is modelled as the list of its documents, and the store's operations by the
  part of MongoDB's query language the handlers use:
  \<^item> a comparison (\<^verbatim>\<open>$gte\<close>, \<^verbatim>\<open>$lte\<close>) only matches a value of the operand's type; strings
    are compared byte by byte;
  \<^item> equality with \<^verbatim>\<open>None\<close> matches a null field and a missing one;
  \<^item> a sort treats a missing field as null and orders values by type first
    (null, numbers, strings, booleans), then by value;
  \<^item> \<^verbatim>\<open>_id\<close> is unique: inserting a document whose \<^verbatim>\<open>_id\<close> is taken raises;
  \<^item> BSON has no integer wider than 8 bytes: a write that carries one raises
    \<^verbatim>\<open>OverflowError\<close> in the driver, before anything reaches the store.
  The order among documents with equal sort keys is not fixed by MongoDB; the model keeps
  their order in the collection. Limits on resources (the size of a document, the
  connection to the store) are outside the model.
\<close>

datatype cond = Eq json | Gte json | Lte json | Exists bool

datatype query = Field string cond | Conj "query list" | Or "query list"

fun bson_key :: "json \<Rightarrow> nat \<times> int \<times> string" where
  "bson_key JNull = (1, 0, [])"
| "bson_key (JInt n) = (2, n, [])"
| "bson_key (JStr s) = (3, 0, s)"
| "bson_key (JBool b) = (4, (if b then 1 else 0), [])"

fun cond_matches :: "cond \<Rightarrow> json option \<Rightarrow> bool" where
  "cond_matches (Exists b) v = ((v \<noteq> None) = b)"
| "cond_matches (Eq q) v = (case v of None \<Rightarrow> q = JNull | Some x \<Rightarrow> x = q)"
| "cond_matches (Gte q) v =
     (case v of None \<Rightarrow> q = JNull
      | Some x \<Rightarrow> fst (bson_key x) = fst (bson_key q) \<and> bson_key q \<le> bson_key x)"
| "cond_matches (Lte q) v =
     (case v of None \<Rightarrow> q = JNull
      | Some x \<Rightarrow> fst (bson_key x) = fst (bson_key q) \<and> bson_key x \<le> bson_key q)"

fun matches :: "query \<Rightarrow> dict \<Rightarrow> bool" where
  "matches (Field f c) d = cond_matches c (map_of d f)"
| "matches (Conj qs) d = list_all (\<lambda>q. matches q d) qs"
| "matches (Or qs) d = list_ex (\<lambda>q. matches q d) qs"

type_synonym collection = "dict list"

datatype exn = HTTPException nat string | DuplicateKeyError | OverflowError | AttributeError

text \<open>What the driver can encode: an integer has to fit in 8 bytes, signed.\<close>

fun bson_encodable_value :: "json \<Rightarrow> bool" where
  "bson_encodable_value (JInt n) = (- (2 ^ 63) \<le> n \<and> n < 2 ^ 63)"
| "bson_encodable_value _ = True"

definition bson_encodable :: "dict \<Rightarrow> bool" where
  "bson_encodable d = list_all (\<lambda>item. bson_encodable_value (snd item)) d"

definition find_docs :: "query \<Rightarrow> collection \<Rightarrow> dict list" where
  "find_docs q c = filter (matches q) c"

definition sort_asc :: "string \<Rightarrow> dict list \<Rightarrow> dict list" where
  "sort_asc f ds = sort_key (\<lambda>d. bson_key (dict_get d f)) ds"

definition find_one :: "query \<Rightarrow> collection \<Rightarrow> dict option" where
  "find_one q c = List.find (matches q) c"

definition insert_one :: "dict \<Rightarrow> collection \<Rightarrow> exn + collection" where
  "insert_one d c =
     (if \<not> bson_encodable d then Inl OverflowError
      else if list_ex (\<lambda>d'. map_of d' ''_id'' = map_of d ''_id'') c then Inl DuplicateKeyError
      else Inr (c @ [d]))"

text \<open>\<^verbatim>\<open>{"$set": fields}\<close> applied to a document: each field is set in turn.\<close>

fun set_fields :: "dict \<Rightarrow> dict \<Rightarrow> dict" where
  "set_fields [] d = d"
| "set_fields ((k, v) # fields) d = set_fields fields (dict_set d k v)"

text \<open>
  \<^verbatim>\<open>update_one(q, {"$set": fields})\<close>: the driver encodes the fields, then the first
  matching document gets them.
\<close>

fun update_first :: "query \<Rightarrow> dict \<Rightarrow> collection \<Rightarrow> collection" where
  "update_first q fields [] = []"
| "update_first q fields (d # ds) =
     (if matches q d then set_fields fields d # ds else d # update_first q fields ds)"

definition update_one :: "query \<Rightarrow> dict \<Rightarrow> collection \<Rightarrow> exn + collection" where
  "update_one q fields c =
     (if \<not> bson_encodable fields then Inl OverflowError else Inr (update_first q fields c))"

text \<open>\<^verbatim>\<open>delete_one(q)\<close>: removes the first matching document; returns \<^verbatim>\<open>deleted_count\<close>.\<close>

fun delete_one :: "query \<Rightarrow> collection \<Rightarrow> nat \<times> collection" where
  "delete_one q [] = (0, [])"
| "delete_one q (d # ds) =
     (if matches q d then (1, ds)
      else (case delete_one q ds of (n, ds') \<Rightarrow> (n, d # ds')))"

section \<open>The handlers\<close>

record announcement =
  a_id :: string
  a_text :: json
  a_start_date :: json
  a_expiration_date :: json
  a_created_by :: json

definition serialize :: "dict \<Rightarrow> announcement" where
  "serialize doc =
     \<lparr> a_id = py_str (dict_get doc ''_id''),
       a_text = dict_get doc ''text'',
       a_start_date = dict_get doc ''start_date'',
       a_expiration_date = dict_get doc ''expiration_date'',
       a_created_by = dict_get doc ''created_by'' \<rparr>"

text \<open>
  \<^verbatim>\<open>today\<close> stands for \<^verbatim>\<open>date.today().isoformat()\<close>. The handlers that change the store
  return the store with their result, also when they raise: an exception leaves whatever
  was written before it. The guard \<^verbatim>\<open>if not teacher_username\<close> is the \<open>None\<close> case together
  with the test of the string. An exception of the driver or the store (\<^verbatim>\<open>OverflowError\<close>,
  \<^verbatim>\<open>DuplicateKeyError\<close>) passes through the handler, and \<^verbatim>\<open>_serialize(None)\<close> in update
  would raise \<^verbatim>\<open>AttributeError\<close>.
\<close>

definition get_active_announcements :: "string \<Rightarrow> collection \<Rightarrow> announcement list" where
  "get_active_announcements today anns =
     (let query =
        Conj [Field ''expiration_date'' (Gte (JStr today)),
              Or [Field ''start_date'' (Lte (JStr today)),
                  Field ''start_date'' (Eq JNull),
                  Field ''start_date'' (Exists False)]]
      in map serialize (sort_asc ''expiration_date'' (find_docs query anns)))"

definition get_all_announcements :: "collection \<Rightarrow> announcement list" where
  "get_all_announcements anns =
     map serialize (sort_asc ''expiration_date'' (find_docs (Conj []) anns))"

definition create_announcement ::
  "collection \<Rightarrow> 128 word \<Rightarrow> dict \<Rightarrow> string option \<Rightarrow> collection
     \<Rightarrow> (exn + announcement) \<times> collection" where
  "create_announcement teachers rnd payload teacher_username anns =
     (case teacher_username of
        None \<Rightarrow> (Inl (HTTPException 401 ''Authentication required to create announcements''), anns)
      | Some username \<Rightarrow>
     if not_str (Some username) then
       (Inl (HTTPException 401 ''Authentication required to create announcements''), anns)
     else
     let teacher = find_one (Field ''_id'' (Eq (JStr username))) teachers in
     if not_dict teacher then
       (Inl (HTTPException 401 ''Invalid teacher credentials''), anns)
     else
     let text = dict_get payload ''text'';
         expiration_date = dict_get payload ''expiration_date'';
         start_date = dict_get payload ''start_date''
     in
     if \<not> truthy expiration_date then
       (Inl (HTTPException 400 ''expiration_date is required''), anns)
     else
     let new_doc =
           [(''_id'', JStr (uuid_str (uuid4 rnd))),
            (''text'', text),
            (''start_date'', start_date),
            (''expiration_date'', expiration_date),
            (''created_by'', JStr username)]
     in
     (case insert_one new_doc anns of
        Inl e \<Rightarrow> (Inl e, anns)
      | Inr anns' \<Rightarrow> (Inr (serialize new_doc), anns')))"

definition update_announcement ::
  "collection \<Rightarrow> string \<Rightarrow> dict \<Rightarrow> string option \<Rightarrow> collection
     \<Rightarrow> (exn + announcement) \<times> collection" where
  "update_announcement teachers announcement_id payload teacher_username anns =
     (case teacher_username of
        None \<Rightarrow> (Inl (HTTPException 401 ''Authentication required to update announcements''), anns)
      | Some username \<Rightarrow>
     if not_str (Some username) then
       (Inl (HTTPException 401 ''Authentication required to update announcements''), anns)
     else
     let teacher = find_one (Field ''_id'' (Eq (JStr username))) teachers in
     if not_dict teacher then
       (Inl (HTTPException 401 ''Invalid teacher credentials''), anns)
     else
     let doc = find_one (Field ''_id'' (Eq (JStr announcement_id))) anns in
     if not_dict doc then
       (Inl (HTTPException 404 ''Announcement not found''), anns)
     else
     let update_fields = [];
         text = dict_get payload ''text'';
         start_date = dict_get payload ''start_date'';
         expiration_date = dict_get payload ''expiration_date'';
         update_fields = (if text \<noteq> JNull then dict_set update_fields ''text'' text
                          else update_fields);
         update_fields = (if start_date \<noteq> JNull
                          then dict_set update_fields ''start_date'' start_date
                          else update_fields);
         update_fields = (if expiration_date \<noteq> JNull
                          then dict_set update_fields ''expiration_date'' expiration_date
                          else update_fields)
     in
     if update_fields = [] then
       (Inl (HTTPException 400 ''No update fields provided''), anns)
     else
     (case update_one (Field ''_id'' (Eq (JStr announcement_id))) update_fields anns of
        Inl e \<Rightarrow> (Inl e, anns)
      | Inr anns' \<Rightarrow>
          (case find_one (Field ''_id'' (Eq (JStr announcement_id))) anns' of
             None \<Rightarrow> (Inl AttributeError, anns')
           | Some updated \<Rightarrow> (Inr (serialize updated), anns'))))"

definition delete_announcement ::
  "collection \<Rightarrow> string \<Rightarrow> string option \<Rightarrow> collection \<Rightarrow> (exn + dict) \<times> collection" where
  "delete_announcement teachers announcement_id teacher_username anns =
     (case teacher_username of
        None \<Rightarrow> (Inl (HTTPException 401 ''Authentication required to delete announcements''), anns)
      | Some username \<Rightarrow>
     if not_str (Some username) then
       (Inl (HTTPException 401 ''Authentication required to delete announcements''), anns)
     else
     let teacher = find_one (Field ''_id'' (Eq (JStr username))) teachers in
     if not_dict teacher then
       (Inl (HTTPException 401 ''Invalid teacher credentials''), anns)
     else
     (case delete_one (Field ''_id'' (Eq (JStr announcement_id))) anns of
        (deleted_count, anns') \<Rightarrow>
          if deleted_count = 0 then
            (Inl (HTTPException 404 ''Announcement not found''), anns')
          else (Inr [(''message'', JStr ''Announcement deleted'')], anns')))"

section \<open>Notions of the specification\<close>

text \<open>The HTTP status of a handler's result, when it raised an \<^verbatim>\<open>HTTPException\<close>.\<close>

fun status_code :: "exn + 'a \<Rightarrow> nat option" where
  "status_code (Inl (HTTPException code detail)) = Some code"
| "status_code _ = None"

text \<open>A collection holds a document whose \<^verbatim>\<open>_id\<close> is the string \<open>x\<close>.\<close>

definition has_id :: "string \<Rightarrow> collection \<Rightarrow> bool" where
  "has_id x c = list_ex (\<lambda>d. map_of d ''_id'' = Some (JStr x)) c"

text \<open>The invariant MongoDB keeps for every collection: no two documents share an \<^verbatim>\<open>_id\<close>.\<close>

definition unique_ids :: "collection \<Rightarrow> bool" where
  "unique_ids c = distinct (map (\<lambda>d. map_of d ''_id'') c)"

text \<open>
  The specification's condition for an active announcement, in its words: the expiration
  date is a string not before today, and the start date is absent, null, or a string not
  after today.
\<close>

definition active_on :: "string \<Rightarrow> dict \<Rightarrow> bool" where
  "active_on today d =
     ((case map_of d ''expiration_date'' of Some (JStr e) \<Rightarrow> today \<le> e | _ \<Rightarrow> False) \<and>
      (case map_of d ''start_date'' of
         None \<Rightarrow> True | Some JNull \<Rightarrow> True | Some (JStr s) \<Rightarrow> s \<le> today | _ \<Rightarrow> False))"

text \<open>Comparison of two dates as strings.\<close>

fun date_le :: "json \<Rightarrow> json \<Rightarrow> bool" where
  "date_le (JStr x) (JStr y) = (x \<le> y)"
| "date_le _ _ = False"

text \<open>The store's order on the values of a field.\<close>

definition value_le :: "json \<Rightarrow> json \<Rightarrow> bool" where
  "value_le a b = (bson_key a \<le> bson_key b)"

text \<open>
  The specification's condition for an unauthorized caller, in its words: the identity is
  absent, or no authorized identity of that name exists.
\<close>

definition absent_or_unknown :: "collection \<Rightarrow> string option \<Rightarrow> bool" where
  "absent_or_unknown teachers caller =
     (case caller of None \<Rightarrow> True | Some u \<Rightarrow> \<not> has_id u teachers)"

text \<open>
  The specification's condition for a rejected payload, in its words: the field is missing
  (absent or null) or empty.
\<close>

definition missing_or_empty :: "dict \<Rightarrow> string \<Rightarrow> bool" where
  "missing_or_empty payload k =
     (case map_of payload k of
        None \<Rightarrow> True | Some JNull \<Rightarrow> True | Some (JStr s) \<Rightarrow> s = [] | Some _ \<Rightarrow> False)"

section \<open>The store's operations\<close>

lemma cond_Eq_JStr: "cond_matches (Eq (JStr x)) v \<longleftrightarrow> v = Some (JStr x)"
  by (auto split: option.splits)

lemma matches_id:
  "matches (Field ''_id'' (Eq (JStr x))) d \<longleftrightarrow> map_of d ''_id'' = Some (JStr x)"
  by (simp add: cond_Eq_JStr del: cond_matches.simps)

lemma matches_all: "matches (Conj []) d"
  by simp

lemma matches_active_query:
  "matches (Conj [Field ''expiration_date'' (Gte (JStr today)),
              Or [Field ''start_date'' (Lte (JStr today)),
                  Field ''start_date'' (Eq JNull),
                  Field ''start_date'' (Exists False)]]) d = active_on today d"
  by (auto simp: active_on_def split: option.splits json.splits)

declare matches.simps [simp del]

lemma find_one_id_None:
  "find_one (Field ''_id'' (Eq (JStr x))) c = None \<longleftrightarrow> \<not> has_id x c"
  by (auto simp: find_one_def has_id_def find_None_iff list_ex_iff matches_id)

lemma find_one_id_Some:
  "find_one (Field ''_id'' (Eq (JStr x))) c = Some d \<Longrightarrow>
     d \<in> set c \<and> map_of d ''_id'' = Some (JStr x) \<and> d \<noteq> []"
  by (auto simp: find_one_def find_Some_iff matches_id)

lemma not_dict_find_one_id:
  "not_dict (find_one (Field ''_id'' (Eq (JStr x))) c) \<longleftrightarrow> \<not> has_id x c"
proof (cases "find_one (Field ''_id'' (Eq (JStr x))) c")
  case None
  then show ?thesis by (simp add: find_one_id_None [symmetric])
next
  case (Some d)
  then have "d \<noteq> []" by (simp add: find_one_id_Some)
  moreover from Some have "has_id x c"
    using find_one_id_None [of x c] by auto
  ultimately show ?thesis using Some by simp
qed

lemma insert_one_id:
  "map_of d ''_id'' = Some (JStr x) \<Longrightarrow>
   insert_one d c =
     (if \<not> bson_encodable d then Inl OverflowError
      else if has_id x c then Inl DuplicateKeyError else Inr (c @ [d]))"
  by (simp add: insert_one_def has_id_def)

lemma unique_ids_append:
  "unique_ids c \<Longrightarrow> \<not> has_id x c \<Longrightarrow> map_of d ''_id'' = Some (JStr x) \<Longrightarrow>
   unique_ids (c @ [d])"
  by (auto simp: unique_ids_def has_id_def list_ex_iff)

lemma delete_one_zero: "fst (delete_one q c) = 0 \<Longrightarrow> snd (delete_one q c) = c"
  by (induction c) (auto split: prod.splits if_splits)

lemma delete_one_id_count:
  "fst (delete_one (Field ''_id'' (Eq (JStr x))) c) = (if has_id x c then 1 else 0)"
  by (induction c) (auto simp: has_id_def matches_id split: prod.splits)

lemma delete_one_mset:
  "find_one q c = Some d \<Longrightarrow> mset (snd (delete_one q c)) = mset c - {#d#}"
proof (induction c)
  case Nil
  then show ?case by (simp add: find_one_def)
next
  case (Cons a c)
  show ?case
  proof (cases "matches q a")
    case True
    with Cons.prems show ?thesis by (simp add: find_one_def)
  next
    case False
    with Cons.prems have f: "find_one q c = Some d" by (simp add: find_one_def)
    then have "d \<in> set c" by (auto simp: find_one_def find_Some_iff)
    then have "d \<in># mset c" by simp
    with Cons.IH [OF f] False show ?thesis
      by (auto split: prod.splits)
  qed
qed

lemma delete_one_removes:
  "unique_ids c \<Longrightarrow> \<not> has_id x (snd (delete_one (Field ''_id'' (Eq (JStr x))) c))"
proof (induction c)
  case Nil
  then show ?case by (simp add: has_id_def)
next
  case (Cons a c)
  show ?case
  proof (cases "map_of a ''_id'' = Some (JStr x)")
    case True
    with Cons.prems have "\<forall>d\<in>set c. map_of d ''_id'' \<noteq> Some (JStr x)"
      unfolding unique_ids_def by force
    with True show ?thesis by (simp add: matches_id has_id_def list_ex_iff)
  next
    case False
    with Cons show ?thesis
      by (auto simp: matches_id has_id_def unique_ids_def split: prod.splits)
  qed
qed

lemma set_fields_map_of: "map_of (set_fields fs d) = map_of d ++ map_of (rev fs)"
  by (induction fs d rule: set_fields.induct)
    (auto simp: dict_set_def update_conv' map_add_def fun_eq_iff split: option.splits)

lemma find_one_update_first:
  "find_one q c = Some d \<Longrightarrow> matches q (set_fields fs d) \<Longrightarrow>
   find_one q (update_first q fs c) = Some (set_fields fs d)"
  by (induction c) (auto simp: find_one_def)

lemma update_first_index:
  "find_one q c = Some d \<Longrightarrow>
   \<exists>i<length c. c ! i = d \<and> (\<forall>fs. update_first q fs c = c[i := set_fields fs d])"
proof (induction c)
  case Nil
  then show ?case by (simp add: find_one_def)
next
  case (Cons a c)
  show ?case
  proof (cases "matches q a")
    case True
    with Cons.prems have "a = d" by (simp add: find_one_def)
    with True show ?thesis by (intro exI [of _ 0]) simp
  next
    case False
    with Cons.prems have "find_one q c = Some d" by (simp add: find_one_def)
    from Cons.IH [OF this] obtain i where "i < length c" "c ! i = d"
      "\<forall>fs. update_first q fs c = c[i := set_fields fs d]" by blast
    with False show ?thesis
      by (intro exI [of _ "Suc i"]) simp
  qed
qed

lemma sorted_sort_asc:
  "sorted_wrt (\<lambda>a b. value_le (dict_get a f) (dict_get b f)) (sort_asc f ds)"
proof -
  have "sorted (map (\<lambda>d. bson_key (dict_get d f)) (sort_asc f ds))"
    unfolding sort_asc_def by (rule sorted_sort_key)
  then show ?thesis by (simp add: sorted_wrt_map value_le_def)
qed

text \<open>Two draws print the same UUID only when their random bits agree.\<close>

lemma set_bits_algebra:
  "(((r AND NOT a) OR b) AND NOT c) OR d = ((r AND NOT a) AND NOT c) OR ((b AND NOT c) OR d)"
  for r a b c d :: "'a::len word"
  by (auto simp: bit_eq_iff bit_and_iff bit_or_iff bit_not_iff)

lemma clear_bits_idem:
  "(((r AND NOT a) AND NOT c) AND NOT a) AND NOT c = (r AND NOT a) AND NOT c"
  for r a c :: "'a::len word"
  by (auto simp: bit_eq_iff bit_and_iff bit_not_iff)

lemma clear_bits_disj:
  "((x OR v) AND NOT a) AND NOT c = ((x AND NOT a) AND NOT c) OR ((v AND NOT a) AND NOT c)"
  for x v a c :: "'a::len word"
  by (auto simp: bit_eq_iff bit_and_iff bit_or_iff bit_not_iff)

lemma uuid4_alt:
  "uuid4 r = random_bits r OR ((push_bit 48 0x8000 AND NOT (push_bit 64 0xf000)) OR push_bit 76 4)"
  unfolding uuid4_def random_bits_def Let_def
  by (rule set_bits_algebra)

lemma fixed_bits:
  "((((push_bit 48 0x8000 AND NOT (push_bit 64 0xf000)) OR push_bit 76 4)
      AND NOT (push_bit 48 0xc000)) AND NOT (push_bit 64 0xf000)) = (0 :: 128 word)"
  by code_simp

lemma random_bits_idem: "random_bits (random_bits r) = random_bits r"
  unfolding random_bits_def
  by (rule clear_bits_idem)

lemma random_bits_uuid4: "random_bits (uuid4 r) = random_bits r"
proof -
  have "random_bits (x OR v) = random_bits x OR random_bits v" for x v
    unfolding random_bits_def by (rule clear_bits_disj)
  moreover have "random_bits ((push_bit 48 0x8000 AND NOT (push_bit 64 0xf000)) OR push_bit 76 4) = 0"
    unfolding random_bits_def by (rule fixed_bits)
  ultimately show ?thesis
    by (simp add: uuid4_alt random_bits_idem)
qed

lemma uuid4_eq_iff: "uuid4 r = uuid4 r' \<longleftrightarrow> random_bits r = random_bits r'"
proof
  assume "uuid4 r = uuid4 r'"
  then have "random_bits (uuid4 r) = random_bits (uuid4 r')" by simp
  then show "random_bits r = random_bits r'" by (simp add: random_bits_uuid4)
next
  assume "random_bits r = random_bits r'"
  then show "uuid4 r = uuid4 r'" by (simp add: uuid4_alt)
qed

lemma digit_char_inj: "m < 16 \<Longrightarrow> n < 16 \<Longrightarrow> digit_char m = digit_char n \<Longrightarrow> m = n"
proof -
  have d: "distinct ''0123456789abcdef''" by simp
  have l: "length ''0123456789abcdef'' = 16" by simp
  show "m < 16 \<Longrightarrow> n < 16 \<Longrightarrow> digit_char m = digit_char n \<Longrightarrow> m = n"
    unfolding digit_char_def using nth_eq_iff_index_eq [OF d, of m n] l by simp
qed

lemma digit_char_not_hyphen: "n < 16 \<Longrightarrow> digit_char n \<noteq> CHR ''-''"
proof -
  assume "n < 16"
  then have "digit_char n \<in> set ''0123456789abcdef''"
    unfolding digit_char_def by (intro nth_mem) simp
  then show ?thesis by auto
qed

lemma nibble_less: "unat ((w :: 128 word) AND 15) < 16"
proof -
  have "(15 :: 128 word) = mask 4" by (simp add: mask_eq_exp_minus_1)
  then have "w AND 15 = take_bit 4 w" by (simp add: take_bit_eq_mask)
  then show ?thesis
    using unsigned_take_bit_eq [of 4 w, where ?'a = nat] take_bit_nat_less_exp [of 4 "unat w"]
    by simp
qed

lemma hex32_inj: assumes "hex32 u = hex32 v" shows "u = v"
proof (rule bit_word_eqI)
  fix n assume n: "n < LENGTH(128)"
  let ?k = "31 - n div 4"
  have k: "?k < 32" by simp
  have sh: "4 * (31 - ?k) = 4 * (n div 4)" using n by simp
  from assms have "hex32 u ! ?k = hex32 v ! ?k" by simp
  then have "digit_char (unat (drop_bit (4 * (n div 4)) u AND 15)) =
      digit_char (unat (drop_bit (4 * (n div 4)) v AND 15))"
    using k sh unfolding hex32_def by (simp del: upt_Suc)
  then have "unat (drop_bit (4 * (n div 4)) u AND 15) = unat (drop_bit (4 * (n div 4)) v AND 15)"
    by (rule digit_char_inj [OF nibble_less nibble_less])
  then have eq: "drop_bit (4 * (n div 4)) u AND 15 = drop_bit (4 * (n div 4)) v AND 15"
    by (simp only: word_unat_eq_iff)
  have m: "(15 :: 128 word) = mask 4" by (simp add: mask_eq_exp_minus_1)
  have pos: "4 * (n div 4) + n mod 4 = n" by simp
  have low: "bit (mask 4 :: 128 word) (n mod 4)"
    by (simp only: bit_mask_iff) simp
  have "bit (drop_bit (4 * (n div 4)) w AND 15) (n mod 4) = bit w n" for w :: "128 word"
    unfolding m bit_and_iff bit_drop_bit_eq using low pos by (simp only: comp_apply simp_thms)
  with eq show "bit u n = bit v n" by metis
qed

lemma length_hex32: "length (hex32 u) = 32"
  by (simp add: hex32_def)

lemma hex32_no_hyphen: "c \<in> set (hex32 u) \<Longrightarrow> c \<noteq> CHR ''-''"
  unfolding hex32_def using digit_char_not_hyphen [OF nibble_less] by (auto simp del: upt_Suc)

lemma uuid_str_digits: "filter (\<lambda>c. c \<noteq> CHR ''-'') (uuid_str u) = hex32 u"
proof -
  let ?h = "hex32 u"
  have keep: "filter (\<lambda>c. c \<noteq> CHR ''-'') xs = xs" if "set xs \<subseteq> set ?h" for xs
    using that hex32_no_hyphen [of _ u] by (intro filter_True) auto
  have "filter (\<lambda>c. c \<noteq> CHR ''-'') (uuid_str u) =
      take 8 ?h @ take 4 (drop 8 ?h) @ take 4 (drop 12 ?h) @ take 4 (drop 16 ?h) @ drop 20 ?h"
    unfolding uuid_str_def Let_def
    by (simp add: keep set_take_subset set_drop_subset
        subset_trans [OF set_take_subset set_drop_subset])
  also have "\<dots> = ?h"
  proof -
    have "take 4 (drop 16 ?h) @ drop 20 ?h = drop 16 ?h"
      using append_take_drop_id [of 4 "drop 16 ?h"] by simp
    moreover have "take 4 (drop 12 ?h) @ drop 16 ?h = drop 12 ?h"
      using append_take_drop_id [of 4 "drop 12 ?h"] by simp
    moreover have "take 4 (drop 8 ?h) @ drop 12 ?h = drop 8 ?h"
      using append_take_drop_id [of 4 "drop 8 ?h"] by simp
    ultimately show ?thesis by simp
  qed
  finally show ?thesis .
qed

lemma uuid_str_inj: "uuid_str u = uuid_str v \<Longrightarrow> u = v"
  using uuid_str_digits [of u] uuid_str_digits [of v] hex32_inj [of u v] by simp

lemma uuid_str_uuid4_eq_iff:
  "uuid_str (uuid4 r) = uuid_str (uuid4 r') \<longleftrightarrow> random_bits r = random_bits r'"
  using uuid_str_inj [of "uuid4 r" "uuid4 r'"] uuid4_eq_iff [of r r'] by auto

lemma uuid_str_length: "length (uuid_str u) = 36"
  by (simp add: uuid_str_def hex32_def Let_def)

lemma uuid_str_nonempty: "uuid_str u \<noteq> []"
  using uuid_str_length [of u] by auto

lemma uuid_str_zero: "uuid_str (uuid4 0) = ''00000000-0000-4000-8000-000000000000''"
  by code_simp

section \<open>The handlers, step by step\<close>

lemma serialize_expiration: "a_expiration_date (serialize d) = dict_get d ''expiration_date''"
  by (simp add: serialize_def)

lemma active_date_le:
  "active_on today a \<Longrightarrow> active_on today b \<Longrightarrow>
   value_le (dict_get a ''expiration_date'') (dict_get b ''expiration_date'') \<Longrightarrow>
   date_le (dict_get a ''expiration_date'') (dict_get b ''expiration_date'')"
  by (auto simp: active_on_def value_le_def dict_get_def split: option.splits json.splits)

lemma get_active_mset:
  "mset (get_active_announcements today anns) =
     image_mset serialize (filter_mset (active_on today) (mset anns))"
  by (simp add: get_active_announcements_def find_docs_def sort_asc_def
      matches_active_query [abs_def])

lemma get_active_sorted:
  "sorted_wrt (\<lambda>a b. value_le (a_expiration_date a) (a_expiration_date b))
     (get_active_announcements today anns)"
  unfolding get_active_announcements_def Let_def
  using sorted_sort_asc [of "''expiration_date''"]
  by (simp add: sorted_wrt_map serialize_expiration)

text \<open>
  What update does once the caller is authorized and the announcement is found: \<open>uf\<close> is
  the dictionary of the fields the payload supplies.
\<close>

lemma update_announcement_found:
  assumes auth: "username \<noteq> []" "has_id username teachers"
    and ex: "find_one (Field ''_id'' (Eq (JStr aid))) anns = Some d"
    and uf: "uf =
      (if dict_get payload ''text'' \<noteq> JNull
       then [(''text'', dict_get payload ''text'')] else []) @
      (if dict_get payload ''start_date'' \<noteq> JNull
       then [(''start_date'', dict_get payload ''start_date'')] else []) @
      (if dict_get payload ''expiration_date'' \<noteq> JNull
       then [(''expiration_date'', dict_get payload ''expiration_date'')] else [])"
  shows "update_announcement teachers aid payload (Some username) anns =
    (if uf = [] then (Inl (HTTPException 400 ''No update fields provided''), anns)
     else if \<not> bson_encodable uf then (Inl OverflowError, anns)
     else (Inr (serialize (set_fields uf d)),
           update_first (Field ''_id'' (Eq (JStr aid))) uf anns))"
proof -
  have found: "\<not> not_dict (find_one (Field ''_id'' (Eq (JStr aid))) anns)"
    using ex find_one_id_Some [OF ex] by simp
  have id: "map_of d ''_id'' = Some (JStr aid)"
    using find_one_id_Some [OF ex] by simp
  have "map_of (set_fields uf d) ''_id'' = Some (JStr aid)"
    unfolding set_fields_map_of uf using id by (simp add: map_add_def)
  then have "matches (Field ''_id'' (Eq (JStr aid))) (set_fields uf d)"
    by (simp add: matches_id)
  from find_one_update_first [OF ex this]
  have again: "find_one (Field ''_id'' (Eq (JStr aid)))
      (update_first (Field ''_id'' (Eq (JStr aid))) uf anns) = Some (set_fields uf d)" .
  show ?thesis
    using auth found again
    by (simp add: update_announcement_def update_one_def Let_def not_dict_find_one_id
        dict_set_def uf split: if_splits)
qed

lemma update_fields_encodable:
  "bson_encodable
     ((if t \<noteq> JNull then [(''text'', t)] else []) @
      (if s \<noteq> JNull then [(''start_date'', s)] else []) @
      (if e \<noteq> JNull then [(''expiration_date'', e)] else [])) \<longleftrightarrow>
   bson_encodable_value t \<and> bson_encodable_value s \<and> bson_encodable_value e"
  by (auto simp: bson_encodable_def)

text \<open>The caller is refused, or is an authorized identity.\<close>

lemma authorized_cases:
  obtains (refused) "absent_or_unknown teachers caller \<or> caller = Some []"
  | (authorized) username where "caller = Some username" "username \<noteq> []"
      "has_id username teachers"
  by (cases caller) (auto simp: absent_or_unknown_def)

lemma authorized_not_refused:
  "username \<noteq> [] \<Longrightarrow> has_id username teachers \<Longrightarrow>
   \<not> (absent_or_unknown teachers (Some username) \<or> Some username = Some [])"
  by (simp add: absent_or_unknown_def)

lemma create_refused:
  assumes "absent_or_unknown teachers caller \<or> caller = Some []"
  shows "\<exists>detail. create_announcement teachers rnd payload caller anns =
    (Inl (HTTPException 401 detail), anns)"
proof (cases caller)
  case None
  then show ?thesis by (simp add: create_announcement_def)
next
  case (Some u)
  with assms have "u = [] \<or> \<not> has_id u teachers"
    by (auto simp: absent_or_unknown_def)
  with Some show ?thesis
    by (cases "u = []") (simp_all add: create_announcement_def Let_def not_dict_find_one_id)
qed

lemma update_refused:
  assumes "absent_or_unknown teachers caller \<or> caller = Some []"
  shows "\<exists>detail. update_announcement teachers aid payload caller anns =
    (Inl (HTTPException 401 detail), anns)"
proof (cases caller)
  case None
  then show ?thesis by (simp add: update_announcement_def)
next
  case (Some u)
  with assms have "u = [] \<or> \<not> has_id u teachers"
    by (auto simp: absent_or_unknown_def)
  with Some show ?thesis
    by (cases "u = []") (simp_all add: update_announcement_def Let_def not_dict_find_one_id)
qed

lemma delete_refused:
  assumes "absent_or_unknown teachers caller \<or> caller = Some []"
  shows "\<exists>detail. delete_announcement teachers aid caller anns =
    (Inl (HTTPException 401 detail), anns)"
proof (cases caller)
  case None
  then show ?thesis by (simp add: delete_announcement_def)
next
  case (Some u)
  with assms have "u = [] \<or> \<not> has_id u teachers"
    by (auto simp: absent_or_unknown_def)
  with Some show ?thesis
    by (cases "u = []") (simp_all add: delete_announcement_def Let_def not_dict_find_one_id)
qed

text \<open>What each handler does for an authorized caller.\<close>

lemma create_announcement_authorized:
  assumes "username \<noteq> []" "has_id username teachers"
  shows "create_announcement teachers rnd payload (Some username) anns =
    (if \<not> truthy (dict_get payload ''expiration_date'')
     then (Inl (HTTPException 400 ''expiration_date is required''), anns)
     else if \<not> (bson_encodable_value (dict_get payload ''text'') \<and>
                 bson_encodable_value (dict_get payload ''start_date'') \<and>
                 bson_encodable_value (dict_get payload ''expiration_date''))
     then (Inl OverflowError, anns)
     else if has_id (uuid_str (uuid4 rnd)) anns then (Inl DuplicateKeyError, anns)
     else (Inr \<lparr> a_id = uuid_str (uuid4 rnd),
                 a_text = dict_get payload ''text'',
                 a_start_date = dict_get payload ''start_date'',
                 a_expiration_date = dict_get payload ''expiration_date'',
                 a_created_by = JStr username \<rparr>,
           anns @ [[(''_id'', JStr (uuid_str (uuid4 rnd))),
                    (''text'', dict_get payload ''text''),
                    (''start_date'', dict_get payload ''start_date''),
                    (''expiration_date'', dict_get payload ''expiration_date''),
                    (''created_by'', JStr username)]]))"
proof -
  let ?doc = "[(''_id'', JStr (uuid_str (uuid4 rnd))),
                    (''text'', dict_get payload ''text''),
                    (''start_date'', dict_get payload ''start_date''),
                    (''expiration_date'', dict_get payload ''expiration_date''),
                    (''created_by'', JStr username)]"
  have enc: "bson_encodable ?doc \<longleftrightarrow>
      bson_encodable_value (dict_get payload ''text'') \<and>
      bson_encodable_value (dict_get payload ''start_date'') \<and>
      bson_encodable_value (dict_get payload ''expiration_date'')"
    by (simp add: bson_encodable_def)
  have ins: "insert_one ?doc anns =
     (if \<not> bson_encodable ?doc then Inl OverflowError
      else if has_id (uuid_str (uuid4 rnd)) anns then Inl DuplicateKeyError
      else Inr (anns @ [?doc]))"
    by (rule insert_one_id) simp
  have ser: "serialize ?doc = \<lparr> a_id = uuid_str (uuid4 rnd),
                 a_text = dict_get payload ''text'',
                 a_start_date = dict_get payload ''start_date'',
                 a_expiration_date = dict_get payload ''expiration_date'',
                 a_created_by = JStr username \<rparr>"
    by (simp add: serialize_def dict_get_def)
  have "create_announcement teachers rnd payload (Some username) anns =
    (if \<not> truthy (dict_get payload ''expiration_date'')
     then (Inl (HTTPException 400 ''expiration_date is required''), anns)
     else (case insert_one ?doc anns of
             Inl e \<Rightarrow> (Inl e, anns)
           | Inr anns' \<Rightarrow> (Inr (serialize ?doc), anns')))"
    using assms by (simp add: create_announcement_def Let_def not_dict_find_one_id)
  then show ?thesis
    unfolding ins enc ser by simp
qed

lemma delete_announcement_authorized:
  assumes "username \<noteq> []" "has_id username teachers"
  shows "delete_announcement teachers aid (Some username) anns =
    (if has_id aid anns
     then (Inr [(''message'', JStr ''Announcement deleted'')],
           snd (delete_one (Field ''_id'' (Eq (JStr aid))) anns))
     else (Inl (HTTPException 404 ''Announcement not found''), anns))"
proof -
  obtain n anns' where del: "delete_one (Field ''_id'' (Eq (JStr aid))) anns = (n, anns')"
    by (cases "delete_one (Field ''_id'' (Eq (JStr aid))) anns")
  have n: "n = (if has_id aid anns then 1 else 0)"
    using delete_one_id_count [of aid anns] del by simp
  have same: "\<not> has_id aid anns \<Longrightarrow> anns' = anns"
    using delete_one_zero [of "Field ''_id'' (Eq (JStr aid))" anns] del n by simp
  show ?thesis
    using assms same
    by (simp add: delete_announcement_def Let_def not_dict_find_one_id del n)
qed

lemma update_announcement_absent:
  assumes "username \<noteq> []" "has_id username teachers" "\<not> has_id aid anns"
  shows "update_announcement teachers aid payload (Some username) anns =
     (Inl (HTTPException 404 ''Announcement not found''), anns)"
  using assms by (simp add: update_announcement_def Let_def not_dict_find_one_id)

text \<open>Unauthorized is the status of the refused callers only.\<close>

lemma create_unauthorized:
  "status_code (fst (create_announcement teachers rnd payload caller anns)) = Some 401 \<longleftrightarrow>
     (absent_or_unknown teachers caller \<or> caller = Some [])"
proof (cases teachers caller rule: authorized_cases)
  case refused
  with create_refused [OF refused, of rnd payload anns] show ?thesis by auto
next
  case (authorized username)
  then show ?thesis
    unfolding authorized(1) create_announcement_authorized [OF authorized(2,3)]
    using authorized_not_refused [OF authorized(2,3)]
    by (simp only: split: if_splits) simp
qed

lemma update_unauthorized:
  "status_code (fst (update_announcement teachers aid payload caller anns)) = Some 401 \<longleftrightarrow>
     (absent_or_unknown teachers caller \<or> caller = Some [])"
proof (cases teachers caller rule: authorized_cases)
  case refused
  with update_refused [OF refused, of aid payload anns] show ?thesis by auto
next
  case (authorized username)
  show ?thesis
  proof (cases "find_one (Field ''_id'' (Eq (JStr aid))) anns")
    case None
    then have "\<not> has_id aid anns" by (simp add: find_one_id_None)
    then show ?thesis
      unfolding authorized(1)
      using authorized_not_refused [OF authorized(2,3)]
      by (simp add: update_announcement_absent [OF authorized(2,3)])
  next
    case (Some d)
    show ?thesis
      unfolding authorized(1) update_announcement_found [OF authorized(2,3) Some refl]
      using authorized_not_refused [OF authorized(2,3)]
      by (simp only: split: if_splits) simp
  qed
qed

lemma delete_unauthorized:
  "status_code (fst (delete_announcement teachers aid caller anns)) = Some 401 \<longleftrightarrow>
     (absent_or_unknown teachers caller \<or> caller = Some [])"
proof (cases teachers caller rule: authorized_cases)
  case refused
  with delete_refused [OF refused, of aid anns] show ?thesis by auto
next
  case (authorized username)
  then show ?thesis
    unfolding authorized(1) delete_announcement_authorized [OF authorized(2,3)]
    using authorized_not_refused [OF authorized(2,3)]
    by (simp only: split: if_splits) simp
qed

text \<open>A handler that ends with an error has not changed the announcements.\<close>

lemma create_error_store:
  assumes "fst (create_announcement teachers rnd payload caller anns) = Inl e"
  shows "snd (create_announcement teachers rnd payload caller anns) = anns"
proof (cases teachers caller rule: authorized_cases)
  case refused
  with create_refused [OF refused, of rnd payload anns] show ?thesis by auto
next
  case (authorized username)
  with assms show ?thesis
    unfolding authorized(1) create_announcement_authorized [OF authorized(2,3)]
    by (simp split: if_splits)
qed

lemma update_error_store:
  assumes "fst (update_announcement teachers aid payload caller anns) = Inl e"
  shows "snd (update_announcement teachers aid payload caller anns) = anns"
proof (cases teachers caller rule: authorized_cases)
  case refused
  with update_refused [OF refused, of aid payload anns] show ?thesis by auto
next
  case (authorized username)
  show ?thesis
  proof (cases "find_one (Field ''_id'' (Eq (JStr aid))) anns")
    case None
    then have "\<not> has_id aid anns" by (simp add: find_one_id_None)
    then show ?thesis
      unfolding authorized(1)
      by (simp add: update_announcement_absent [OF authorized(2,3)])
  next
    case (Some d)
    with assms show ?thesis
      unfolding authorized(1) update_announcement_found [OF authorized(2,3) Some refl]
      by (simp split: if_splits)
  qed
qed

lemma delete_error_store:
  assumes "fst (delete_announcement teachers aid caller anns) = Inl e"
  shows "snd (delete_announcement teachers aid caller anns) = anns"
proof (cases teachers caller rule: authorized_cases)
  case refused
  with delete_refused [OF refused, of aid anns] show ?thesis by auto
next
  case (authorized username)
  with assms show ?thesis
    unfolding authorized(1) delete_announcement_authorized [OF authorized(2,3)]
    by (simp split: if_splits)
qed

lemma delete_absent:
  "username \<noteq> [] \<Longrightarrow> has_id username teachers \<Longrightarrow> \<not> has_id aid anns \<Longrightarrow>
   delete_announcement teachers aid (Some username) anns =
     (Inl (HTTPException 404 ''Announcement not found''), anns)"
  by (simp add: delete_announcement_authorized)

lemma delete_present:
  "username \<noteq> [] \<Longrightarrow> has_id username teachers \<Longrightarrow> has_id aid anns \<Longrightarrow>
   delete_announcement teachers aid (Some username) anns =
     (Inr [(''message'', JStr ''Announcement deleted'')],
      snd (delete_one (Field ''_id'' (Eq (JStr aid))) anns))"
  by (simp add: delete_announcement_authorized)

text \<open>The handlers keep the ids of the announcements unique.\<close>

lemma update_first_ids:
  "''_id'' \<notin> fst ` set fs \<Longrightarrow>
   map (\<lambda>d. map_of d ''_id'') (update_first q fs c) = map (\<lambda>d. map_of d ''_id'') c"
proof (induction c)
  case Nil
  then show ?case by simp
next
  case (Cons a c)
  from Cons.prems have "map_of (rev fs) ''_id'' = None"
    by (simp add: map_of_eq_None_iff)
  then have "map_of (set_fields fs a) ''_id'' = map_of a ''_id''"
    by (simp add: set_fields_map_of map_add_def)
  with Cons show ?case by simp
qed

lemma delete_one_subset: "set (snd (delete_one q c)) \<subseteq> set c"
  by (induction c) (auto split: prod.splits)

lemma delete_one_distinct:
  "distinct (map f c) \<Longrightarrow> distinct (map f (snd (delete_one q c)))"
proof (induction c)
  case Nil
  then show ?case by simp
next
  case (Cons a c)
  then show ?case
    using delete_one_subset [of q c] by (auto split: prod.splits)
qed

lemma handlers_keep_unique_ids:
  assumes "unique_ids anns"
  shows "unique_ids (snd (create_announcement teachers rnd payload caller anns))"
    and "unique_ids (snd (update_announcement teachers aid payload caller anns))"
    and "unique_ids (snd (delete_announcement teachers aid caller anns))"
proof -
  show "unique_ids (snd (create_announcement teachers rnd payload caller anns))"
  proof (cases teachers caller rule: authorized_cases)
    case refused
    with create_refused [OF refused, of rnd payload anns] assms show ?thesis by auto
  next
    case (authorized username)
    have "unique_ids (anns @ [d])"
      if "\<not> has_id (uuid_str (uuid4 rnd)) anns"
        "map_of d ''_id'' = Some (JStr (uuid_str (uuid4 rnd)))" for d
      using assms that by (rule unique_ids_append)
    with assms show ?thesis
      unfolding authorized(1) create_announcement_authorized [OF authorized(2,3)]
      by simp
  qed
  show "unique_ids (snd (update_announcement teachers aid payload caller anns))"
  proof (cases teachers caller rule: authorized_cases)
    case refused
    with update_refused [OF refused, of aid payload anns] assms show ?thesis by auto
  next
    case (authorized username)
    show ?thesis
    proof (cases "find_one (Field ''_id'' (Eq (JStr aid))) anns")
      case None
      then have "\<not> has_id aid anns" by (simp add: find_one_id_None)
      with assms show ?thesis
        unfolding authorized(1)
        by (simp add: update_announcement_absent [OF authorized(2,3)])
    next
      case (Some d)
      have "unique_ids (update_first q fs anns)" if "''_id'' \<notin> fst ` set fs" for q fs
        using assms update_first_ids [OF that, of q anns] by (simp add: unique_ids_def)
      with assms show ?thesis
        unfolding authorized(1) update_announcement_found [OF authorized(2,3) Some refl]
        by simp
    qed
  qed
  show "unique_ids (snd (delete_announcement teachers aid caller anns))"
  proof (cases teachers caller rule: authorized_cases)
    case refused
    with delete_refused [OF refused, of aid anns] assms show ?thesis by auto
  next
    case (authorized username)
    with assms delete_one_distinct [of "\<lambda>d. map_of d ''_id''" anns "Field ''_id'' (Eq (JStr aid))"]
    show ?thesis
      unfolding authorized(1) delete_announcement_authorized [OF authorized(2,3)]
      by (simp add: unique_ids_def)
  qed
qed

section \<open>Listing\<close>

text \<open>
  C1. For every store and every current date, \<open>list_active\<close> returns exactly the
  announcements whose expiration date is a string not before today and whose start date is
  absent, null, or a string not after today (each once, serialized), and the result is
  ordered non-decreasing by expiration date, compared as strings.
\<close>

theorem list_active_exact:
  "mset (get_active_announcements today anns) =
     image_mset serialize (filter_mset (active_on today) (mset anns)) \<and>
   sorted_wrt (\<lambda>a b. date_le (a_expiration_date a) (a_expiration_date b))
     (get_active_announcements today anns)"
proof
  show "mset (get_active_announcements today anns) =
     image_mset serialize (filter_mset (active_on today) (mset anns))"
    by (rule get_active_mset)
next
  let ?exp = "\<lambda>d. dict_get d ''expiration_date''"
  let ?found = "sort_asc ''expiration_date'' (filter (active_on today) anns)"
  have "sorted_wrt (\<lambda>a b. value_le (?exp a) (?exp b)) ?found"
    by (rule sorted_sort_asc)
  moreover have "\<forall>d\<in>set ?found. active_on today d"
    by (simp add: sort_asc_def)
  ultimately have "sorted_wrt (\<lambda>a b. date_le (?exp a) (?exp b)) ?found"
    by (auto elim!: sorted_wrt_mono_rel [rotated] intro: active_date_le)
  then show "sorted_wrt (\<lambda>a b. date_le (a_expiration_date a) (a_expiration_date b))
     (get_active_announcements today anns)"
    by (simp add: get_active_announcements_def find_docs_def sorted_wrt_map
        serialize_expiration matches_active_query [abs_def])
qed

theorem list_active_exact_witness:
  "get_active_announcements ''2025-06-01''
     [[(''_id'', JStr ''a''), (''expiration_date'', JStr ''2099-01-01'')],
      [(''_id'', JStr ''b''), (''expiration_date'', JStr ''2020-01-01''), (''start_date'', JNull)],
      [(''_id'', JStr ''c''), (''expiration_date'', JStr ''2030-01-01''),
       (''start_date'', JStr ''2024-01-01'')],
      [(''_id'', JStr ''d''), (''expiration_date'', JStr ''2031-01-01''),
       (''start_date'', JStr ''2026-01-01'')]] =
     [\<lparr> a_id = ''c'', a_text = JNull, a_start_date = JStr ''2024-01-01'',
        a_expiration_date = JStr ''2030-01-01'', a_created_by = JNull \<rparr>,
      \<lparr> a_id = ''a'', a_text = JNull, a_start_date = JNull,
        a_expiration_date = JStr ''2099-01-01'', a_created_by = JNull \<rparr>] \<and>
   image_mset serialize (filter_mset (active_on ''2025-06-01'')
     (mset [[(''_id'', JStr ''a''), (''expiration_date'', JStr ''2099-01-01'')],
      [(''_id'', JStr ''b''), (''expiration_date'', JStr ''2020-01-01''), (''start_date'', JNull)],
      [(''_id'', JStr ''c''), (''expiration_date'', JStr ''2030-01-01''),
       (''start_date'', JStr ''2024-01-01'')],
      [(''_id'', JStr ''d''), (''expiration_date'', JStr ''2031-01-01''),
       (''start_date'', JStr ''2026-01-01'')]])) =
     mset [\<lparr> a_id = ''c'', a_text = JNull, a_start_date = JStr ''2024-01-01'',
        a_expiration_date = JStr ''2030-01-01'', a_created_by = JNull \<rparr>,
      \<lparr> a_id = ''a'', a_text = JNull, a_start_date = JNull,
        a_expiration_date = JStr ''2099-01-01'', a_created_by = JNull \<rparr>]"
proof -
  let ?anns = "[[(''_id'', JStr ''a''), (''expiration_date'', JStr ''2099-01-01'')],
      [(''_id'', JStr ''b''), (''expiration_date'', JStr ''2020-01-01''), (''start_date'', JNull)],
      [(''_id'', JStr ''c''), (''expiration_date'', JStr ''2030-01-01''),
       (''start_date'', JStr ''2024-01-01'')],
      [(''_id'', JStr ''d''), (''expiration_date'', JStr ''2031-01-01''),
       (''start_date'', JStr ''2026-01-01'')]]"
  have run: "get_active_announcements ''2025-06-01'' ?anns =
     [\<lparr> a_id = ''c'', a_text = JNull, a_start_date = JStr ''2024-01-01'',
        a_expiration_date = JStr ''2030-01-01'', a_created_by = JNull \<rparr>,
      \<lparr> a_id = ''a'', a_text = JNull, a_start_date = JNull,
        a_expiration_date = JStr ''2099-01-01'', a_created_by = JNull \<rparr>]"
    by (simp add: get_active_announcements_def find_docs_def sort_asc_def matches.simps
        serialize_def dict_get_def)
  from list_active_exact [of "''2025-06-01''" ?anns] show ?thesis
    unfolding run by simp
qed

text \<open>
  C9. For every store, \<open>list_all\<close> returns every stored announcement (each once,
  serialized, nothing filtered), ordered non-decreasing by expiration date in the store's
  order; what \<open>list_active\<close> returns is contained in it, and is ordered by the same order.
\<close>

theorem list_all_superset:
  "mset (get_all_announcements anns) = image_mset serialize (mset anns) \<and>
   sorted_wrt (\<lambda>a b. value_le (a_expiration_date a) (a_expiration_date b))
     (get_all_announcements anns) \<and>
   mset (get_active_announcements today anns) \<subseteq># mset (get_all_announcements anns) \<and>
   sorted_wrt (\<lambda>a b. value_le (a_expiration_date a) (a_expiration_date b))
     (get_active_announcements today anns)"
proof (intro conjI)
  show all: "mset (get_all_announcements anns) = image_mset serialize (mset anns)"
    by (simp add: get_all_announcements_def find_docs_def sort_asc_def matches_all)
  show "sorted_wrt (\<lambda>a b. value_le (a_expiration_date a) (a_expiration_date b))
     (get_all_announcements anns)"
    using sorted_sort_asc [of "''expiration_date''" "find_docs (Conj []) anns"]
    by (simp add: get_all_announcements_def sorted_wrt_map serialize_expiration)
  show "mset (get_active_announcements today anns) \<subseteq># mset (get_all_announcements anns)"
    by (simp add: all get_active_mset image_mset_subseteq_mono)
  show "sorted_wrt (\<lambda>a b. value_le (a_expiration_date a) (a_expiration_date b))
     (get_active_announcements today anns)"
    by (rule get_active_sorted)
qed

theorem list_all_superset_witness:
  "get_all_announcements
     [[(''_id'', JStr ''a''), (''expiration_date'', JStr ''2099-01-01'')],
      [(''_id'', JStr ''b''), (''expiration_date'', JStr ''2020-01-01'')]] =
     [\<lparr> a_id = ''b'', a_text = JNull, a_start_date = JNull,
        a_expiration_date = JStr ''2020-01-01'', a_created_by = JNull \<rparr>,
      \<lparr> a_id = ''a'', a_text = JNull, a_start_date = JNull,
        a_expiration_date = JStr ''2099-01-01'', a_created_by = JNull \<rparr>] \<and>
   mset (get_active_announcements ''2025-06-01''
     [[(''_id'', JStr ''a''), (''expiration_date'', JStr ''2099-01-01'')],
      [(''_id'', JStr ''b''), (''expiration_date'', JStr ''2020-01-01'')]]) \<subseteq>#
     mset [\<lparr> a_id = ''b'', a_text = JNull, a_start_date = JNull,
        a_expiration_date = JStr ''2020-01-01'', a_created_by = JNull \<rparr>,
      \<lparr> a_id = ''a'', a_text = JNull, a_start_date = JNull,
        a_expiration_date = JStr ''2099-01-01'', a_created_by = JNull \<rparr>]"
proof -
  let ?anns = "[[(''_id'', JStr ''a''), (''expiration_date'', JStr ''2099-01-01'')],
      [(''_id'', JStr ''b''), (''expiration_date'', JStr ''2020-01-01'')]]"
  have run: "get_all_announcements ?anns =
     [\<lparr> a_id = ''b'', a_text = JNull, a_start_date = JNull,
        a_expiration_date = JStr ''2020-01-01'', a_created_by = JNull \<rparr>,
      \<lparr> a_id = ''a'', a_text = JNull, a_start_date = JNull,
        a_expiration_date = JStr ''2099-01-01'', a_created_by = JNull \<rparr>]"
    by (simp add: get_all_announcements_def find_docs_def sort_asc_def matches.simps
        serialize_def dict_get_def)
  from list_all_superset [of ?anns "''2025-06-01''"]
  have "mset (get_active_announcements ''2025-06-01'' ?anns) \<subseteq># mset (get_all_announcements ?anns)"
    by blast
  then show ?thesis
    unfolding run by (simp only: simp_thms)
qed

section \<open>Creating\<close>

text \<open>
  C2, as stated: for every authorized caller and every payload with a non-empty expiration
  date, create persists and returns a record. The driver cannot encode an integer wider
  than 8 bytes, so a payload whose text is such a number ends in \<^verbatim>\<open>OverflowError\<close>, and
  nothing is stored.
\<close>

theorem create_overflow_counterexample:
  "create_announcement [[(''_id'', JStr ''alice'')]] 0
      [(''text'', JInt (2 ^ 63)), (''expiration_date'', JStr ''2099-01-01'')]
      (Some ''alice'') [] =
    (Inl OverflowError, [])"
  by (simp add: create_announcement_def Let_def find_one_def matches.simps dict_get_def
      insert_one_def bson_encodable_def)

text \<open>
  C2, amended. For an authorized caller and a payload whose expiration date is true for
  Python (as every non-empty string is), create does one of three things. When the text,
  the start date or the expiration date is an integer wider than 8 bytes it raises
  \<^verbatim>\<open>OverflowError\<close>; otherwise, when the UUID it draws is already an id of the store, it
  raises \<^verbatim>\<open>DuplicateKeyError\<close>; in both cases nothing is stored. Otherwise it appends one
  document and returns its serialization: the id is the printed UUID, the text, start
  date and expiration date are the payload's values (null when absent), and
  \<open>created_by\<close> is the caller. The printed UUID has 36 characters, and two draws print
  the same one only when all their random bits agree. Whenever create returns a record,
  its id is the printed UUID and was not an id of the store before, the record is the
  only one found under that id afterwards, and the ids of the store stay unique.
\<close>

theorem create_persists:
  assumes auth: "username \<noteq> []" "has_id username teachers"
    and exp: "truthy (dict_get payload ''expiration_date'')"
  shows "create_announcement teachers rnd payload (Some username) anns =
       (if \<not> (bson_encodable_value (dict_get payload ''text'') \<and>
               bson_encodable_value (dict_get payload ''start_date'') \<and>
               bson_encodable_value (dict_get payload ''expiration_date''))
        then (Inl OverflowError, anns)
        else if has_id (uuid_str (uuid4 rnd)) anns then (Inl DuplicateKeyError, anns)
        else (Inr \<lparr> a_id = uuid_str (uuid4 rnd),
                    a_text = dict_get payload ''text'',
                    a_start_date = dict_get payload ''start_date'',
                    a_expiration_date = dict_get payload ''expiration_date'',
                    a_created_by = JStr username \<rparr>,
              anns @ [[(''_id'', JStr (uuid_str (uuid4 rnd))),
                       (''text'', dict_get payload ''text''),
                       (''start_date'', dict_get payload ''start_date''),
                       (''expiration_date'', dict_get payload ''expiration_date''),
                       (''created_by'', JStr username)]])) \<and>
     length (uuid_str (uuid4 rnd)) = 36 \<and>
     (\<forall>rnd'. uuid_str (uuid4 rnd') = uuid_str (uuid4 rnd) \<longleftrightarrow>
        random_bits rnd' = random_bits rnd) \<and>
     (\<forall>r anns'. create_announcement teachers rnd payload (Some username) anns = (Inr r, anns') \<longrightarrow>
        a_id r = uuid_str (uuid4 rnd) \<and> \<not> has_id (a_id r) anns \<and>
        map serialize (find_docs (Field ''_id'' (Eq (JStr (a_id r)))) anns') = [r] \<and>
        (unique_ids anns \<longrightarrow> unique_ids anns'))"
proof (intro conjI allI impI)
  let ?id = "uuid_str (uuid4 rnd)"
  let ?doc = "[(''_id'', JStr ?id),
            (''text'', dict_get payload ''text''),
            (''start_date'', dict_get payload ''start_date''),
            (''expiration_date'', dict_get payload ''expiration_date''),
            (''created_by'', JStr username)]"
  let ?rec = "\<lparr> a_id = ?id,
         a_text = dict_get payload ''text'',
         a_start_date = dict_get payload ''start_date'',
         a_expiration_date = dict_get payload ''expiration_date'',
         a_created_by = JStr username \<rparr>"
  note run = create_announcement_authorized [OF auth, of rnd payload anns]
  show "create_announcement teachers rnd payload (Some username) anns =
       (if \<not> (bson_encodable_value (dict_get payload ''text'') \<and>
               bson_encodable_value (dict_get payload ''start_date'') \<and>
               bson_encodable_value (dict_get payload ''expiration_date''))
        then (Inl OverflowError, anns)
        else if has_id ?id anns then (Inl DuplicateKeyError, anns)
        else (Inr ?rec, anns @ [?doc]))"
    using exp unfolding run by simp
  show "length ?id = 36"
    by (rule uuid_str_length)
  show "uuid_str (uuid4 rnd') = ?id \<longleftrightarrow> random_bits rnd' = random_bits rnd" for rnd'
    by (rule uuid_str_uuid4_eq_iff)
  fix r anns'
  assume ok: "create_announcement teachers rnd payload (Some username) anns = (Inr r, anns')"
  then have res: "r = ?rec" "anns' = anns @ [?doc]" and fresh: "\<not> has_id ?id anns"
    unfolding run by (simp_all split: if_splits)
  show "a_id r = ?id"
    by (simp add: res)
  then show "\<not> has_id (a_id r) anns"
    using fresh by simp
  have "\<forall>d\<in>set anns. \<not> matches (Field ''_id'' (Eq (JStr ?id))) d"
    using fresh by (simp add: has_id_def list_ex_iff matches_id)
  then have "find_docs (Field ''_id'' (Eq (JStr ?id))) (anns @ [?doc]) = [?doc]"
    by (simp add: find_docs_def matches_id)
  then show "map serialize (find_docs (Field ''_id'' (Eq (JStr (a_id r)))) anns') = [r]"
    by (simp add: res serialize_def dict_get_def)
  show "unique_ids anns'" if "unique_ids anns"
    unfolding res using that fresh by (rule unique_ids_append) simp
qed

theorem create_persists_witness:
  "create_announcement [[(''_id'', JStr ''alice'')]] 0 [(''expiration_date'', JStr ''2099-01-01'')]
      (Some ''alice'') [] =
    (Inr \<lparr> a_id = ''00000000-0000-4000-8000-000000000000'', a_text = JNull, a_start_date = JNull,
           a_expiration_date = JStr ''2099-01-01'', a_created_by = JStr ''alice'' \<rparr>,
     [[(''_id'', JStr ''00000000-0000-4000-8000-000000000000''), (''text'', JNull),
       (''start_date'', JNull), (''expiration_date'', JStr ''2099-01-01''),
       (''created_by'', JStr ''alice'')]])"
proof -
  have "''alice'' \<noteq> []" "has_id ''alice'' [[(''_id'', JStr ''alice'')]]"
    "truthy (dict_get [(''expiration_date'', JStr ''2099-01-01'')] ''expiration_date'')"
    by (simp_all add: has_id_def dict_get_def)
  from create_persists [OF this, of 0 "[]"]
  show ?thesis
    by (simp add: uuid_str_zero dict_get_def has_id_def)
qed

text \<open>
  C6, as stated: for an authorized caller, create fails with BadRequest exactly when the
  expiration date is missing or empty. The code tests the value's truth, so the number
  zero, which is neither missing nor empty, is rejected as well.
\<close>

theorem create_zero_expiration_counterexample:
  "\<not> (status_code (fst (create_announcement [[(''_id'', JStr ''alice'')]] 0
          [(''expiration_date'', JInt 0)] (Some ''alice'') [])) = Some 400 \<longleftrightarrow>
       missing_or_empty [(''expiration_date'', JInt 0)] ''expiration_date'')"
  by (simp add: create_announcement_def Let_def find_one_def matches.simps dict_get_def
      missing_or_empty_def)

text \<open>
  C6, amended. For an authorized caller, create fails with BadRequest exactly when the
  payload's expiration date is absent, null, the empty string, zero or false, whatever
  the text and the start date are; and then the store is unchanged.
\<close>

theorem create_bad_request_iff:
  assumes auth: "username \<noteq> []" "has_id username teachers"
  shows "(status_code (fst (create_announcement teachers rnd payload (Some username) anns)) = Some 400
      \<longleftrightarrow> map_of payload ''expiration_date'' \<in>
           {None, Some JNull, Some (JStr []), Some (JInt 0), Some (JBool False)}) \<and>
     (status_code (fst (create_announcement teachers rnd payload (Some username) anns)) = Some 400
      \<longrightarrow> create_announcement teachers rnd payload (Some username) anns =
           (Inl (HTTPException 400 ''expiration_date is required''), anns))"
proof -
  have falsy: "\<not> truthy (dict_get payload ''expiration_date'') \<longleftrightarrow>
      map_of payload ''expiration_date'' \<in>
           {None, Some JNull, Some (JStr []), Some (JInt 0), Some (JBool False)}"
    by (auto simp: dict_get_def split: option.splits elim: truthy.elims)
  show ?thesis
    unfolding falsy [symmetric] create_announcement_authorized [OF auth]
    by simp
qed

theorem create_bad_request_iff_witness:
  "create_announcement [[(''_id'', JStr ''alice'')]] 0
      [(''text'', JStr ''hello''), (''start_date'', JStr ''2024-01-01'')] (Some ''alice'') [] =
     (Inl (HTTPException 400 ''expiration_date is required''), [])"
proof -
  have "''alice'' \<noteq> []" "has_id ''alice'' [[(''_id'', JStr ''alice'')]]"
    by (simp_all add: has_id_def)
  from create_bad_request_iff [OF this, of 0
      "[(''text'', JStr ''hello''), (''start_date'', JStr ''2024-01-01'')]" "[]"]
  show ?thesis by simp
qed

section \<open>Updating\<close>

text \<open>
  C3, as stated: for every existing announcement and authorized caller, update replaces
  each of text, start date and expiration date that the payload gives a non-null value.
  The driver cannot encode an integer wider than 8 bytes, so a payload whose text is such
  a number ends in \<^verbatim>\<open>OverflowError\<close>, and the stored text stays.
\<close>

theorem update_overflow_counterexample:
  "update_announcement [[(''_id'', JStr ''alice'')]] ''a1'' [(''text'', JInt (2 ^ 63))]
     (Some ''alice'')
     [[(''_id'', JStr ''a1''), (''text'', JStr ''old''), (''start_date'', JNull),
       (''expiration_date'', JStr ''2099-01-01''), (''created_by'', JStr ''bob'')]] =
   (Inl OverflowError,
    [[(''_id'', JStr ''a1''), (''text'', JStr ''old''), (''start_date'', JNull),
      (''expiration_date'', JStr ''2099-01-01''), (''created_by'', JStr ''bob'')]])"
  by (simp add: update_announcement_def update_one_def Let_def find_one_def matches.simps
      dict_get_def dict_set_def bson_encodable_def)

text \<open>
  C3, amended. For an authorized caller and the announcement \<open>d\<close> stored under the id:
  when the payload gives no non-null value under \<open>text\<close>, \<open>start_date\<close>,
  \<open>expiration_date\<close>, update fails with BadRequest; otherwise, when one of these values is
  an integer wider than 8 bytes, it raises \<^verbatim>\<open>OverflowError\<close>; in both cases the store is
  unchanged. Otherwise update replaces \<open>d\<close> in place by a document \<open>d'\<close> that has the
  payload's value under each of the three keys that the payload gives a non-null value,
  and the value of \<open>d\<close> under every other key, \<open>_id\<close> and \<open>created_by\<close> among them,
  and returns the serialization of \<open>d'\<close>.
\<close>

theorem update_replaces_supplied_fields:
  assumes auth: "username \<noteq> []" "has_id username teachers"
    and ex: "find_one (Field ''_id'' (Eq (JStr aid))) anns = Some d"
  shows "\<exists>i. i < length anns \<and> anns ! i = d \<and>
     (if dict_get payload ''text'' = JNull \<and> dict_get payload ''start_date'' = JNull \<and>
         dict_get payload ''expiration_date'' = JNull
      then update_announcement teachers aid payload (Some username) anns =
             (Inl (HTTPException 400 ''No update fields provided''), anns)
      else if \<not> (bson_encodable_value (dict_get payload ''text'') \<and>
                  bson_encodable_value (dict_get payload ''start_date'') \<and>
                  bson_encodable_value (dict_get payload ''expiration_date''))
      then update_announcement teachers aid payload (Some username) anns =
             (Inl OverflowError, anns)
      else (\<exists>d'. update_announcement teachers aid payload (Some username) anns =
                   (Inr (serialize d'), anns[i := d']) \<and>
                 (\<forall>k. map_of d' k =
                    (if k \<in> {''text'', ''start_date'', ''expiration_date''} \<and>
                        dict_get payload k \<noteq> JNull
                     then Some (dict_get payload k) else map_of d k)) \<and>
                 a_id (serialize d') = a_id (serialize d) \<and>
                 a_created_by (serialize d') = a_created_by (serialize d)))"
proof -
  define uf where "uf =
      (if dict_get payload ''text'' \<noteq> JNull
       then [(''text'', dict_get payload ''text'')] else []) @
      (if dict_get payload ''start_date'' \<noteq> JNull
       then [(''start_date'', dict_get payload ''start_date'')] else []) @
      (if dict_get payload ''expiration_date'' \<noteq> JNull
       then [(''expiration_date'', dict_get payload ''expiration_date'')] else [])"
  define d' where "d' = set_fields uf d"
  from update_first_index [OF ex] obtain i where i: "i < length anns" "anns ! i = d"
    and upd: "update_first (Field ''_id'' (Eq (JStr aid))) uf anns = anns[i := d']"
    unfolding d'_def by blast
  have enc: "bson_encodable uf \<longleftrightarrow>
      bson_encodable_value (dict_get payload ''text'') \<and>
      bson_encodable_value (dict_get payload ''start_date'') \<and>
      bson_encodable_value (dict_get payload ''expiration_date'')"
    unfolding uf_def by (rule update_fields_encodable)
  have run: "update_announcement teachers aid payload (Some username) anns =
    (if uf = [] then (Inl (HTTPException 400 ''No update fields provided''), anns)
     else if \<not> (bson_encodable_value (dict_get payload ''text'') \<and>
                 bson_encodable_value (dict_get payload ''start_date'') \<and>
                 bson_encodable_value (dict_get payload ''expiration_date''))
     then (Inl OverflowError, anns)
     else (Inr (serialize d'), anns[i := d']))"
    using update_announcement_found [OF auth ex uf_def] upd enc by (simp add: d'_def)
  have empty: "uf = [] \<longleftrightarrow> dict_get payload ''text'' = JNull \<and>
      dict_get payload ''start_date'' = JNull \<and> dict_get payload ''expiration_date'' = JNull"
    by (simp add: uf_def)
  have fields: "map_of d' k =
        (if k \<in> {''text'', ''start_date'', ''expiration_date''} \<and> dict_get payload k \<noteq> JNull
         then Some (dict_get payload k) else map_of d k)" for k
    by (simp add: d'_def set_fields_map_of uf_def map_add_def)
  have kept: "a_id (serialize d') = a_id (serialize d)"
    "a_created_by (serialize d') = a_created_by (serialize d)"
    by (simp_all add: serialize_def dict_get_def fields)
  show ?thesis
  proof (intro exI [of _ i] conjI)
    show "i < length anns" "anns ! i = d" by (rule i)+
    show "if dict_get payload ''text'' = JNull \<and> dict_get payload ''start_date'' = JNull \<and>
         dict_get payload ''expiration_date'' = JNull
      then update_announcement teachers aid payload (Some username) anns =
             (Inl (HTTPException 400 ''No update fields provided''), anns)
      else if \<not> (bson_encodable_value (dict_get payload ''text'') \<and>
                  bson_encodable_value (dict_get payload ''start_date'') \<and>
                  bson_encodable_value (dict_get payload ''expiration_date''))
      then update_announcement teachers aid payload (Some username) anns =
             (Inl OverflowError, anns)
      else (\<exists>d'. update_announcement teachers aid payload (Some username) anns =
                   (Inr (serialize d'), anns[i := d']) \<and>
                 (\<forall>k. map_of d' k =
                    (if k \<in> {''text'', ''start_date'', ''expiration_date''} \<and>
                        dict_get payload k \<noteq> JNull
                     then Some (dict_get payload k) else map_of d k)) \<and>
                 a_id (serialize d') = a_id (serialize d) \<and>
                 a_created_by (serialize d') = a_created_by (serialize d))"
      unfolding run empty [symmetric]
      using fields kept by (auto intro!: exI [of _ d'])
  qed
qed

theorem update_replaces_supplied_fields_witness:
  "update_announcement [[(''_id'', JStr ''alice'')]] ''a1'' [(''text'', JStr ''new'')] (Some ''alice'')
     [[(''_id'', JStr ''a1''), (''text'', JStr ''old''), (''start_date'', JNull),
       (''expiration_date'', JStr ''2099-01-01''), (''created_by'', JStr ''bob'')]] =
   (Inr \<lparr> a_id = ''a1'', a_text = JStr ''new'', a_start_date = JNull,
          a_expiration_date = JStr ''2099-01-01'', a_created_by = JStr ''bob'' \<rparr>,
    [[(''_id'', JStr ''a1''), (''text'', JStr ''new''), (''start_date'', JNull),
      (''expiration_date'', JStr ''2099-01-01''), (''created_by'', JStr ''bob'')]]) \<and>
   (\<exists>d'. snd (update_announcement [[(''_id'', JStr ''alice'')]] ''a1'' [(''text'', JStr ''new'')]
          (Some ''alice'')
          [[(''_id'', JStr ''a1''), (''text'', JStr ''old''), (''start_date'', JNull),
            (''expiration_date'', JStr ''2099-01-01''), (''created_by'', JStr ''bob'')]]) = [d'] \<and>
      map_of d' ''text'' = Some (JStr ''new'') \<and>
      map_of d' ''start_date'' = Some JNull \<and>
      map_of d' ''expiration_date'' = Some (JStr ''2099-01-01'') \<and>
      map_of d' ''created_by'' = Some (JStr ''bob'') \<and>
      map_of d' ''_id'' = Some (JStr ''a1''))"
proof -
  let ?d = "[(''_id'', JStr ''a1''), (''text'', JStr ''old''), (''start_date'', JNull),
       (''expiration_date'', JStr ''2099-01-01''), (''created_by'', JStr ''bob'')]"
  let ?p = "[(''text'', JStr ''new'')]"
  have run: "update_announcement [[(''_id'', JStr ''alice'')]] ''a1'' ?p (Some ''alice'') [?d] =
   (Inr \<lparr> a_id = ''a1'', a_text = JStr ''new'', a_start_date = JNull,
          a_expiration_date = JStr ''2099-01-01'', a_created_by = JStr ''bob'' \<rparr>,
    [[(''_id'', JStr ''a1''), (''text'', JStr ''new''), (''start_date'', JNull),
      (''expiration_date'', JStr ''2099-01-01''), (''created_by'', JStr ''bob'')]])"
    by (simp add: update_announcement_def update_one_def Let_def find_one_def matches.simps
        dict_get_def dict_set_def serialize_def bson_encodable_def)
  have "''alice'' \<noteq> []" "has_id ''alice'' [[(''_id'', JStr ''alice'')]]"
    "find_one (Field ''_id'' (Eq (JStr ''a1''))) [?d] = Some ?d"
    by (simp_all add: has_id_def find_one_def matches.simps)
  from update_replaces_supplied_fields [OF this, of ?p]
  obtain i d' where "i < length [?d]"
    and "update_announcement [[(''_id'', JStr ''alice'')]] ''a1'' ?p (Some ''alice'') [?d] =
           (Inr (serialize d'), [?d][i := d'])"
    and "\<forall>k. map_of d' k =
        (if k \<in> {''text'', ''start_date'', ''expiration_date''} \<and> dict_get ?p k \<noteq> JNull
         then Some (dict_get ?p k) else map_of ?d k)"
    by (auto simp: dict_get_def)
  then have "snd (update_announcement [[(''_id'', JStr ''alice'')]] ''a1'' ?p
          (Some ''alice'') [?d]) = [d'] \<and>
      map_of d' ''text'' = Some (JStr ''new'') \<and>
      map_of d' ''start_date'' = Some JNull \<and>
      map_of d' ''expiration_date'' = Some (JStr ''2099-01-01'') \<and>
      map_of d' ''created_by'' = Some (JStr ''bob'') \<and>
      map_of d' ''_id'' = Some (JStr ''a1'')"
    by (simp add: dict_get_def)
  then show ?thesis
    using run by blast
qed

text \<open>
  C7. For an authorized caller and every payload, the empty one included, update on an id
  that no announcement has fails with NotFound and leaves the store as it was: the
  announcement is looked up before the payload is read.
\<close>

theorem update_missing_not_found:
  assumes auth: "username \<noteq> []" "has_id username teachers"
    and missing: "\<not> has_id aid anns"
  shows "update_announcement teachers aid payload (Some username) anns =
     (Inl (HTTPException 404 ''Announcement not found''), anns)"
  using assms by (rule update_announcement_absent)

theorem update_missing_not_found_witness:
  "update_announcement [[(''_id'', JStr ''alice'')]] ''nope'' [] (Some ''alice'')
     [[(''_id'', JStr ''a1''), (''expiration_date'', JStr ''2099-01-01'')]] =
     (Inl (HTTPException 404 ''Announcement not found''),
      [[(''_id'', JStr ''a1''), (''expiration_date'', JStr ''2099-01-01'')]])"
proof -
  have "''alice'' \<noteq> []" "has_id ''alice'' [[(''_id'', JStr ''alice'')]]"
    "\<not> has_id ''nope'' [[(''_id'', JStr ''a1''), (''expiration_date'', JStr ''2099-01-01'')]]"
    by (simp_all add: has_id_def)
  from update_missing_not_found [OF this] show ?thesis .
qed

text \<open>
  C10. For an authorized caller and an announcement stored under the id, update with the
  payload \<open>{"expiration_date": ""}\<close> succeeds, and the empty string is the expiration date it
  returns and stores. No successful update turns a non-null expiration date into null, and
  no successful create returns an expiration date that is false for Python, as the empty
  string is.
\<close>

theorem update_accepts_empty_expiration:
  assumes auth: "username \<noteq> []" "has_id username teachers"
    and ex: "find_one (Field ''_id'' (Eq (JStr aid))) anns = Some d"
  shows "(\<exists>r d'. fst (update_announcement teachers aid [(''expiration_date'', JStr [])]
                  (Some username) anns) = Inr r \<and>
            a_expiration_date r = JStr [] \<and>
            find_one (Field ''_id'' (Eq (JStr aid)))
              (snd (update_announcement teachers aid [(''expiration_date'', JStr [])]
                  (Some username) anns)) = Some d' \<and>
            map_of d' ''expiration_date'' = Some (JStr [])) \<and>
     (\<forall>payload r. fst (update_announcement teachers aid payload (Some username) anns) = Inr r \<longrightarrow>
        dict_get d ''expiration_date'' \<noteq> JNull \<longrightarrow> a_expiration_date r \<noteq> JNull) \<and>
     (\<forall>teachers' rnd payload caller anns' r.
        fst (create_announcement teachers' rnd payload caller anns') = Inr r \<longrightarrow>
        truthy (a_expiration_date r) \<and> a_expiration_date r \<noteq> JStr [] \<and>
        a_expiration_date r \<noteq> JNull)"
proof (intro conjI allI impI)
  let ?q = "Field ''_id'' (Eq (JStr aid))"
  let ?p = "[(''expiration_date'', JStr [])]"
  let ?uf = "[(''expiration_date'', JStr [])]"
  have uf: "?uf =
      (if dict_get ?p ''text'' \<noteq> JNull then [(''text'', dict_get ?p ''text'')] else []) @
      (if dict_get ?p ''start_date'' \<noteq> JNull
       then [(''start_date'', dict_get ?p ''start_date'')] else []) @
      (if dict_get ?p ''expiration_date'' \<noteq> JNull
       then [(''expiration_date'', dict_get ?p ''expiration_date'')] else [])"
    by (simp add: dict_get_def)
  have run: "update_announcement teachers aid ?p (Some username) anns =
      (Inr (serialize (set_fields ?uf d)), update_first ?q ?uf anns)"
    using update_announcement_found [OF auth ex uf] by (simp add: bson_encodable_def)
  have id: "map_of d ''_id'' = Some (JStr aid)"
    using find_one_id_Some [OF ex] by simp
  have "matches ?q (set_fields ?uf d)"
    using id by (simp add: matches_id set_fields_map_of del: set_fields.simps)
  from find_one_update_first [OF ex this]
  have "find_one ?q (update_first ?q ?uf anns) = Some (set_fields ?uf d)" .
  then show "\<exists>r d'. fst (update_announcement teachers aid ?p (Some username) anns) = Inr r \<and>
            a_expiration_date r = JStr [] \<and>
            find_one ?q (snd (update_announcement teachers aid ?p (Some username) anns)) = Some d' \<and>
            map_of d' ''expiration_date'' = Some (JStr [])"
    unfolding run
    by (simp add: serialize_def dict_get_def set_fields_map_of del: set_fields.simps)
next
  fix payload r
  assume ok: "fst (update_announcement teachers aid payload (Some username) anns) = Inr r"
    and old: "dict_get d ''expiration_date'' \<noteq> JNull"
  from ok old show "a_expiration_date r \<noteq> JNull"
    unfolding update_announcement_found [OF auth ex refl]
    by (auto simp: serialize_def dict_get_def set_fields_map_of map_add_def
        split: if_splits option.splits)
next
  fix teachers' rnd payload caller anns' r
  assume ok: "fst (create_announcement teachers' rnd payload caller anns') = Inr r"
  have t: "truthy (a_expiration_date r)"
  proof (cases teachers' caller rule: authorized_cases)
    case refused
    with create_refused [OF refused, of rnd payload anns'] ok show ?thesis by auto
  next
    case (authorized username)
    with ok show ?thesis
      unfolding authorized(1) create_announcement_authorized [OF authorized(2,3)]
      by (auto split: if_splits)
  qed
  then show "truthy (a_expiration_date r)" .
  from t show "a_expiration_date r \<noteq> JStr []" by auto
  from t show "a_expiration_date r \<noteq> JNull" by auto
qed

theorem update_accepts_empty_expiration_witness:
  "update_announcement [[(''_id'', JStr ''alice'')]] ''a1'' [(''expiration_date'', JStr [])]
     (Some ''alice'')
     [[(''_id'', JStr ''a1''), (''text'', JNull), (''start_date'', JNull),
       (''expiration_date'', JStr ''2099-01-01''), (''created_by'', JStr ''alice'')]] =
   (Inr \<lparr> a_id = ''a1'', a_text = JNull, a_start_date = JNull,
          a_expiration_date = JStr [], a_created_by = JStr ''alice'' \<rparr>,
    [[(''_id'', JStr ''a1''), (''text'', JNull), (''start_date'', JNull),
      (''expiration_date'', JStr []), (''created_by'', JStr ''alice'')]]) \<and>
   (\<exists>r. fst (update_announcement [[(''_id'', JStr ''alice'')]] ''a1''
           [(''expiration_date'', JStr [])] (Some ''alice'')
           [[(''_id'', JStr ''a1''), (''text'', JNull), (''start_date'', JNull),
             (''expiration_date'', JStr ''2099-01-01''), (''created_by'', JStr ''alice'')]]) = Inr r \<and>
         a_expiration_date r = JStr [])"
proof -
  let ?d = "[(''_id'', JStr ''a1''), (''text'', JNull), (''start_date'', JNull),
       (''expiration_date'', JStr ''2099-01-01''), (''created_by'', JStr ''alice'')]"
  have run: "update_announcement [[(''_id'', JStr ''alice'')]] ''a1'' [(''expiration_date'', JStr [])]
     (Some ''alice'') [?d] =
   (Inr \<lparr> a_id = ''a1'', a_text = JNull, a_start_date = JNull,
          a_expiration_date = JStr [], a_created_by = JStr ''alice'' \<rparr>,
    [[(''_id'', JStr ''a1''), (''text'', JNull), (''start_date'', JNull),
      (''expiration_date'', JStr []), (''created_by'', JStr ''alice'')]])"
    by (simp add: update_announcement_def update_one_def Let_def find_one_def matches.simps
        dict_get_def dict_set_def serialize_def bson_encodable_def)
  have "''alice'' \<noteq> []" "has_id ''alice'' [[(''_id'', JStr ''alice'')]]"
    "find_one (Field ''_id'' (Eq (JStr ''a1''))) [?d] = Some ?d"
    by (simp_all add: has_id_def find_one_def matches.simps)
  from update_accepts_empty_expiration [OF this]
  have "\<exists>r. fst (update_announcement [[(''_id'', JStr ''alice'')]] ''a1''
           [(''expiration_date'', JStr [])] (Some ''alice'') [?d]) = Inr r \<and>
         a_expiration_date r = JStr []"
    by blast
  with run show ?thesis by blast
qed

section \<open>Authorization and errors\<close>

text \<open>
  C4, as stated: each of create, update and delete fails with Unauthorized exactly when
  the caller identity is absent or is not in the store of authorized identities. The
  handlers first test the identity's truth, so the empty string is refused even when an
  authorized identity has that name.
\<close>

theorem empty_identity_counterexample:
  "\<not> (status_code (fst (create_announcement [[(''_id'', JStr [])]] 0
          [(''expiration_date'', JStr ''2099-01-01'')] (Some []) [])) = Some 401 \<longleftrightarrow>
       absent_or_unknown [[(''_id'', JStr [])]] (Some []))"
  by (simp add: create_announcement_def absent_or_unknown_def has_id_def)

text \<open>
  C4, amended. For every payload, id and store, each of create, update and delete fails
  with Unauthorized exactly when the caller identity is absent, is the empty string, or is
  not in the store of authorized identities; nothing else is looked at before, and the
  announcements are left as they were.
\<close>

theorem unauthorized_iff:
  "(status_code (fst (create_announcement teachers rnd payload caller anns)) = Some 401 \<longleftrightarrow>
      absent_or_unknown teachers caller \<or> caller = Some []) \<and>
   (status_code (fst (update_announcement teachers aid payload caller anns)) = Some 401 \<longleftrightarrow>
      absent_or_unknown teachers caller \<or> caller = Some []) \<and>
   (status_code (fst (delete_announcement teachers aid caller anns)) = Some 401 \<longleftrightarrow>
      absent_or_unknown teachers caller \<or> caller = Some []) \<and>
   (absent_or_unknown teachers caller \<or> caller = Some [] \<longrightarrow>
      snd (create_announcement teachers rnd payload caller anns) = anns \<and>
      snd (update_announcement teachers aid payload caller anns) = anns \<and>
      snd (delete_announcement teachers aid caller anns) = anns)"
proof (intro conjI impI)
  show "status_code (fst (create_announcement teachers rnd payload caller anns)) = Some 401 \<longleftrightarrow>
      absent_or_unknown teachers caller \<or> caller = Some []"
    by (rule create_unauthorized)
  show "status_code (fst (update_announcement teachers aid payload caller anns)) = Some 401 \<longleftrightarrow>
      absent_or_unknown teachers caller \<or> caller = Some []"
    by (rule update_unauthorized)
  show "status_code (fst (delete_announcement teachers aid caller anns)) = Some 401 \<longleftrightarrow>
      absent_or_unknown teachers caller \<or> caller = Some []"
    by (rule delete_unauthorized)
next
  assume un: "absent_or_unknown teachers caller \<or> caller = Some []"
  then obtain e where "fst (create_announcement teachers rnd payload caller anns) = Inl e"
    using create_unauthorized [of teachers rnd payload caller anns]
    by (cases "fst (create_announcement teachers rnd payload caller anns)") auto
  then show "snd (create_announcement teachers rnd payload caller anns) = anns"
    by (rule create_error_store)
  from un obtain e where "fst (update_announcement teachers aid payload caller anns) = Inl e"
    using update_unauthorized [of teachers aid payload caller anns]
    by (cases "fst (update_announcement teachers aid payload caller anns)") auto
  then show "snd (update_announcement teachers aid payload caller anns) = anns"
    by (rule update_error_store)
  from un obtain e where "fst (delete_announcement teachers aid caller anns) = Inl e"
    using delete_unauthorized [of teachers aid caller anns]
    by (cases "fst (delete_announcement teachers aid caller anns)") auto
  then show "snd (delete_announcement teachers aid caller anns) = anns"
    by (rule delete_error_store)
qed

theorem unauthorized_iff_witness:
  "status_code (fst (create_announcement [[(''_id'', JStr ''alice'')]] 0
      [(''expiration_date'', JStr ''2099-01-01'')] (Some ''mallory'') [])) = Some 401 \<and>
   status_code (fst (update_announcement [[(''_id'', JStr ''alice'')]] ''a1''
      [(''expiration_date'', JStr ''2099-01-01'')] (Some ''mallory'') [])) = Some 401 \<and>
   status_code (fst (delete_announcement [[(''_id'', JStr ''alice'')]] ''a1''
      (Some ''mallory'') [])) = Some 401 \<and>
   snd (create_announcement [[(''_id'', JStr ''alice'')]] 0
      [(''expiration_date'', JStr ''2099-01-01'')] (Some ''mallory'') []) = []"
proof -
  have "absent_or_unknown [[(''_id'', JStr ''alice'')]] (Some ''mallory'')"
    by (simp add: absent_or_unknown_def has_id_def)
  with unauthorized_iff [of "[[(''_id'', JStr ''alice'')]]" 0
      "[(''expiration_date'', JStr ''2099-01-01'')]" "Some ''mallory''" "[]" "''a1''"]
  show ?thesis by simp
qed

text \<open>
  C5. Whenever create, update or delete ends with an error, the announcements are exactly
  as they were before the call.
\<close>

theorem errors_leave_store:
  "(fst (create_announcement teachers rnd payload caller anns) = Inl e1 \<longrightarrow>
      snd (create_announcement teachers rnd payload caller anns) = anns) \<and>
   (fst (update_announcement teachers aid payload caller anns) = Inl e2 \<longrightarrow>
      snd (update_announcement teachers aid payload caller anns) = anns) \<and>
   (fst (delete_announcement teachers aid caller anns) = Inl e3 \<longrightarrow>
      snd (delete_announcement teachers aid caller anns) = anns)"
  using create_error_store [of teachers rnd payload caller anns e1]
    update_error_store [of teachers aid payload caller anns e2]
    delete_error_store [of teachers aid caller anns e3]
  by blast

theorem errors_leave_store_witness:
  "snd (create_announcement [[(''_id'', JStr ''alice'')]] 0 [(''text'', JStr ''hello'')]
      (Some ''alice'') [[(''_id'', JStr ''a1''), (''expiration_date'', JStr ''2099-01-01'')]]) =
     [[(''_id'', JStr ''a1''), (''expiration_date'', JStr ''2099-01-01'')]] \<and>
   snd (update_announcement [[(''_id'', JStr ''alice'')]] ''a1'' [] (Some ''alice'')
      [[(''_id'', JStr ''a1''), (''expiration_date'', JStr ''2099-01-01'')]]) =
     [[(''_id'', JStr ''a1''), (''expiration_date'', JStr ''2099-01-01'')]] \<and>
   snd (delete_announcement [[(''_id'', JStr ''alice'')]] ''nope'' (Some ''alice'')
      [[(''_id'', JStr ''a1''), (''expiration_date'', JStr ''2099-01-01'')]]) =
     [[(''_id'', JStr ''a1''), (''expiration_date'', JStr ''2099-01-01'')]]"
proof -
  let ?T = "[[(''_id'', JStr ''alice'')]]"
  let ?anns = "[[(''_id'', JStr ''a1''), (''expiration_date'', JStr ''2099-01-01'')]]"
  have c: "fst (create_announcement ?T 0 [(''text'', JStr ''hello'')] (Some ''alice'') ?anns) =
      Inl (HTTPException 400 ''expiration_date is required'')"
    by (simp add: create_announcement_def Let_def find_one_def matches.simps dict_get_def)
  have u: "fst (update_announcement ?T ''a1'' [] (Some ''alice'') ?anns) =
      Inl (HTTPException 400 ''No update fields provided'')"
    by (simp add: update_announcement_def Let_def find_one_def matches.simps dict_get_def)
  have d: "fst (delete_announcement ?T ''nope'' (Some ''alice'') ?anns) =
      Inl (HTTPException 404 ''Announcement not found'')"
    by (simp add: delete_announcement_def Let_def find_one_def matches.simps)
  from c errors_leave_store [of ?T 0 "[(''text'', JStr ''hello'')]" "Some ''alice''" ?anns
      "HTTPException 400 ''expiration_date is required''"]
  have 1: "snd (create_announcement ?T 0 [(''text'', JStr ''hello'')] (Some ''alice'') ?anns) = ?anns"
    by blast
  from u errors_leave_store [of ?T _ "[]" "Some ''alice''" ?anns _ "''a1''"
      "HTTPException 400 ''No update fields provided''"]
  have 2: "snd (update_announcement ?T ''a1'' [] (Some ''alice'') ?anns) = ?anns"
    by blast
  from d errors_leave_store [of ?T _ _ "Some ''alice''" ?anns _ "''nope''" _
      "HTTPException 404 ''Announcement not found''"]
  have 3: "snd (delete_announcement ?T ''nope'' (Some ''alice'') ?anns) = ?anns"
    by blast
  from 1 2 3 show ?thesis by blast
qed

section \<open>Deleting\<close>

text \<open>
  C8. For an authorized caller and a store with unique ids that holds an announcement
  under the id, delete removes that announcement, and nothing else, and returns the
  confirmation; a second delete of the id then fails with NotFound. For an authorized
  caller, delete of an id that no announcement has always fails with NotFound.
\<close>

theorem delete_twice:
  assumes auth: "username \<noteq> []" "has_id username teachers"
    and ex: "find_one (Field ''_id'' (Eq (JStr aid))) anns = Some d"
    and uniq: "unique_ids anns"
  shows "\<exists>anns1.
     delete_announcement teachers aid (Some username) anns =
       (Inr [(''message'', JStr ''Announcement deleted'')], anns1) \<and>
     mset anns1 = mset anns - {#d#} \<and> \<not> has_id aid anns1 \<and>
     delete_announcement teachers aid (Some username) anns1 =
       (Inl (HTTPException 404 ''Announcement not found''), anns1) \<and>
     (\<forall>c. \<not> has_id aid c \<longrightarrow>
        delete_announcement teachers aid (Some username) c =
          (Inl (HTTPException 404 ''Announcement not found''), c))"
proof -
  let ?anns1 = "snd (delete_one (Field ''_id'' (Eq (JStr aid))) anns)"
  have present: "has_id aid anns"
    using ex find_one_id_None [of aid anns] by simp
  have gone: "\<not> has_id aid ?anns1"
    using uniq by (rule delete_one_removes)
  have "delete_announcement teachers aid (Some username) anns =
       (Inr [(''message'', JStr ''Announcement deleted'')], ?anns1)"
    using auth present by (rule delete_present)
  moreover have "mset ?anns1 = mset anns - {#d#}"
    using ex by (rule delete_one_mset)
  moreover have "delete_announcement teachers aid (Some username) ?anns1 =
       (Inl (HTTPException 404 ''Announcement not found''), ?anns1)"
    using auth gone by (rule delete_absent)
  moreover have "\<forall>c. \<not> has_id aid c \<longrightarrow>
        delete_announcement teachers aid (Some username) c =
          (Inl (HTTPException 404 ''Announcement not found''), c)"
    using auth by (simp add: delete_absent)
  ultimately show ?thesis
    using gone by blast
qed

theorem delete_twice_witness:
  "delete_announcement [[(''_id'', JStr ''alice'')]] ''a1'' (Some ''alice'')
     [[(''_id'', JStr ''a1''), (''expiration_date'', JStr ''2099-01-01'')],
      [(''_id'', JStr ''a2''), (''expiration_date'', JStr ''2030-01-01'')]] =
     (Inr [(''message'', JStr ''Announcement deleted'')],
      [[(''_id'', JStr ''a2''), (''expiration_date'', JStr ''2030-01-01'')]]) \<and>
   delete_announcement [[(''_id'', JStr ''alice'')]] ''a1'' (Some ''alice'')
     [[(''_id'', JStr ''a2''), (''expiration_date'', JStr ''2030-01-01'')]] =
     (Inl (HTTPException 404 ''Announcement not found''),
      [[(''_id'', JStr ''a2''), (''expiration_date'', JStr ''2030-01-01'')]])"
proof -
  let ?T = "[[(''_id'', JStr ''alice'')]]"
  let ?d1 = "[(''_id'', JStr ''a1''), (''expiration_date'', JStr ''2099-01-01'')]"
  let ?d2 = "[(''_id'', JStr ''a2''), (''expiration_date'', JStr ''2030-01-01'')]"
  have "''alice'' \<noteq> []" "has_id ''alice'' ?T"
    "find_one (Field ''_id'' (Eq (JStr ''a1''))) [?d1, ?d2] = Some ?d1"
    "unique_ids [?d1, ?d2]"
    by (simp_all add: has_id_def find_one_def matches.simps unique_ids_def)
  from delete_twice [OF this] obtain anns1 where
    first: "delete_announcement ?T ''a1'' (Some ''alice'') [?d1, ?d2] =
       (Inr [(''message'', JStr ''Announcement deleted'')], anns1)"
    and second: "delete_announcement ?T ''a1'' (Some ''alice'') anns1 =
       (Inl (HTTPException 404 ''Announcement not found''), anns1)"
    by blast
  have "snd (delete_announcement ?T ''a1'' (Some ''alice'') [?d1, ?d2]) = [?d2]"
    by (simp add: delete_announcement_def Let_def find_one_def matches.simps)
  with first have "anns1 = [?d2]" by simp
  with first second show ?thesis by simp
qed

end
